theory Spec2Isabelle
  imports Main "HOL-Library.Sublist" "HOL-Library.Word"
begin

section \<open>The callout-fix test script (patch/config/test-callout-fix.py)\<close>

text \<open>
  The script reads one HTML fixture, posts it to the import service, prints a summary of
  the service's answer and turns the outcome into the exit status of the process. The
  embedding below follows the script line by line. Everything outside the script (the file
  system, the HTTP service, the JSON decoder of the HTTP library) is a parameter of the
  run, collected in the record \<open>env\<close>; everything the script does to the outside
  (opening the file, posting, decoding, printing) is logged as an \<open>event\<close>, in order.
\<close>

subsection \<open>Python values\<close>

text \<open>
  A Python \<open>str\<close> is a sequence of Unicode code points, so it is a list of naturals here;
  \<open>ascii\<close> embeds the ASCII literals of the source. Code points beyond ASCII (the emoji of
  the messages) are written as numbers.
\<close>

type_synonym pystr = "nat list"

definition ascii :: "string \<Rightarrow> pystr" where
  "ascii s = map of_char s"

text \<open>
  The values \<open>response.json()\<close> can return: \<open>None\<close>, \<open>bool\<close>, \<open>int\<close> (unbounded),
  \<open>float\<close> (the 64 bits of an IEEE double), \<open>str\<close>, \<open>list\<close> and \<open>dict\<close>. A dict is the
  list of its items in insertion order; a lookup takes the first item with the key, so every
  item list denotes a dict, and a dict is denoted by its items.
\<close>

datatype pyval =
    PNone
  | PBool bool
  | PInt int
  | PFloat "64 word"
  | PStr pystr
  | PList "pyval list"
  | PDict "(pystr \<times> pyval) list"

text \<open>Truth value testing (\<open>not x\<close>, \<open>x and y\<close>, \<open>if x\<close>). A float is false when it is
  \<open>0.0\<close> or \<open>-0.0\<close>.\<close>

fun truthy :: "pyval \<Rightarrow> bool" where
  "truthy PNone = False"
| "truthy (PBool b) = b"
| "truthy (PInt n) = (n \<noteq> 0)"
| "truthy (PFloat w) = (w \<noteq> 0 \<and> w \<noteq> 0x8000000000000000)"
| "truthy (PStr s) = (s \<noteq> [])"
| "truthy (PList xs) = (xs \<noteq> [])"
| "truthy (PDict kvs) = (kvs \<noteq> [])"

datatype exn =
    OSError
  | UnicodeDecodeError
  | RequestException
  | JSONDecodeError
  | UnicodeEncodeError
  | AttributeError
  | TypeError
  | KeyError

text \<open>The lookup of a key in the items of a dict, with a default for a missing key.\<close>

definition dict_get :: "(pystr \<times> pyval) list \<Rightarrow> pystr \<Rightarrow> pyval \<Rightarrow> pyval" where
  "dict_get kvs key dflt = (case map_of kvs key of None \<Rightarrow> dflt | Some v \<Rightarrow> v)"

text \<open>\<open>x.get(key, default)\<close>: only a dict has the method.\<close>

fun py_get :: "pyval \<Rightarrow> pystr \<Rightarrow> pyval \<Rightarrow> exn + pyval" where
  "py_get (PDict kvs) key dflt = Inr (dict_get kvs key dflt)"
| "py_get _ key dflt = Inl AttributeError"

text \<open>\<open>key in x\<close> for a \<open>str\<close> key: a key of a dict, an element of a list, a substring
  of a str; the other values are not containers.\<close>

fun py_in :: "pystr \<Rightarrow> pyval \<Rightarrow> exn + bool" where
  "py_in key (PDict kvs) = Inr (key \<in> set (map fst kvs))"
| "py_in key (PList xs) = Inr (PStr key \<in> set xs)"
| "py_in key (PStr s) = Inr (sublist key s)"
| "py_in key _ = Inl TypeError"

text \<open>\<open>x[key]\<close> for a \<open>str\<close> key.\<close>

fun py_index :: "pyval \<Rightarrow> pystr \<Rightarrow> exn + pyval" where
  "py_index (PDict kvs) key = (case map_of kvs key of None \<Rightarrow> Inl KeyError | Some v \<Rightarrow> Inr v)"
| "py_index _ key = Inl TypeError"

text \<open>The items a \<open>for\<close> loop runs over: the elements of a list, the keys of a dict, the
  characters of a str; the other values are not iterable.\<close>

fun py_iter :: "pyval \<Rightarrow> exn + pyval list" where
  "py_iter (PList xs) = Inr xs"
| "py_iter (PDict kvs) = Inr (map (\<lambda>kv. PStr (fst kv)) kvs)"
| "py_iter (PStr s) = Inr (map (\<lambda>c. PStr [c]) s)"
| "py_iter _ = Inl TypeError"

subsection \<open>The outside world and the log of a run\<close>

record response =
  status_code :: int
  resp_text :: pystr
  resp_json :: "exn + pyval"

text \<open>
  \<open>read_file path\<close> is what \<open>open(path, 'r', encoding='utf-8')\<close> followed by \<open>f.read()\<close>
  gives, \<open>http_post url payload timeout\<close> what \<open>requests.post(url, json=payload,
  timeout=timeout)\<close> gives: a value, or the exception raised. \<open>resp_json\<close> of a response is
  the outcome of \<open>response.json()\<close>.
\<close>

record env =
  read_file :: "pystr \<Rightarrow> exn + pystr"
  http_post :: "pystr \<Rightarrow> pyval \<Rightarrow> nat \<Rightarrow> exn + response"

text \<open>
  A printed line is the concatenation of its pieces: \<open>Lit s\<close> is literal text of the source,
  \<open>Fmt v\<close> is \<open>str(v)\<close> (a value interpolated into an f-string, or printed), and
  \<open>Dumps v n\<close> is \<open>json.dumps(v, indent=n)\<close>. The formatting functions of the Python library
  are not part of the script and stay symbolic.
\<close>

datatype piece = Lit pystr | Fmt pyval | Dumps pyval nat

text \<open>
  Standard output encodes the text of a line as UTF-8, which has no encoding for a surrogate
  code point (U+D800 to U+DFFF); \<open>response.json()\<close> yields such a code point for an escape
  like \<open>\ud800\<close>. \<open>str\<close> of a str is the str itself, so it can hold one. \<open>str\<close> of
  \<open>None\<close>, a bool, an int or a float is ASCII; \<open>str\<close> of a list or a dict is its \<open>repr\<close>,
  which writes a surrogate inside it as an escape; \<open>json.dumps\<close> escapes everything beyond
  ASCII. So a piece cannot be encoded exactly when it is a str, literal or formatted, that
  holds a surrogate. Standard output itself is taken to be a working UTF-8 stream.
\<close>

definition surrogate :: "nat \<Rightarrow> bool" where
  "surrogate c \<longleftrightarrow> 0xD800 \<le> c \<and> c \<le> 0xDFFF"

definition encodable :: "pystr \<Rightarrow> bool" where
  "encodable s = list_all (\<lambda>c. \<not> surrogate c) s"

fun printable :: "pyval \<Rightarrow> bool" where
  "printable (PStr s) = encodable s"
| "printable _ = True"

fun piece_encodable :: "piece \<Rightarrow> bool" where
  "piece_encodable (Lit s) = encodable s"
| "piece_encodable (Fmt v) = printable v"
| "piece_encodable (Dumps v n) = True"

datatype event =
    OpenRead pystr
  | HttpPost pystr pyval nat
  | JsonDecode
  | Print "piece list"

text \<open>A computation logs events and then returns a value or raises.\<close>

type_synonym 'a io = "event list \<times> (exn + 'a)"

definition ret :: "'a \<Rightarrow> 'a io" where
  "ret x = ([], Inr x)"

definition lift :: "exn + 'a \<Rightarrow> 'a io" where
  "lift r = ([], r)"

definition io_bind :: "'a io \<Rightarrow> ('a \<Rightarrow> 'b io) \<Rightarrow> 'b io" where
  "io_bind m f =
     (case m of
        (es, Inl e) \<Rightarrow> (es, Inl e)
      | (es, Inr x) \<Rightarrow> (case f x of (es', r) \<Rightarrow> (es @ es', r)))"

text \<open>
  \<open>print\<close> of one line. The line is encoded as a whole when it is written, so a line that
  cannot be encoded raises \<open>UnicodeEncodeError\<close> and nothing of it is written.
\<close>

definition print :: "piece list \<Rightarrow> unit io" where
  "print ps =
     (if list_all piece_encodable ps then ([Print ps], Inr ())
      else ([], Inl UnicodeEncodeError))"

definition open_read :: "env \<Rightarrow> pystr \<Rightarrow> pystr io" where
  "open_read env path = ([OpenRead path], read_file env path)"

definition requests_post :: "env \<Rightarrow> pystr \<Rightarrow> pyval \<Rightarrow> nat \<Rightarrow> response io" where
  "requests_post env url payload timeout =
     ([HttpPost url payload timeout], http_post env url payload timeout)"

definition response_json :: "response \<Rightarrow> pyval io" where
  "response_json response = ([JsonDecode], resp_json response)"

subsection \<open>Configuration (lines 10-12)\<close>

definition SERVER_URL :: pystr where
  "SERVER_URL = ascii ''http://localhost:3004''"

definition DATABASE_ID :: pystr where
  "DATABASE_ID = ascii ''282a89fedba5815e91f0db972912ef9f''"

definition HTML_FILE :: pystr where
  "HTML_FILE = ascii ''/Users/norton-mcintosh/GitHub/ServiceNow-2-Notion/patch/pages-to-update/performance-overview-2025-11-13T06-49-50.html''"

text \<open>\<open>HTML_FILE.name\<close>, the last component of the path.\<close>

definition HTML_FILE_name :: pystr where
  "HTML_FILE_name = ascii ''performance-overview-2025-11-13T06-49-50.html''"

subsection \<open>The summary of the validation (lines 58-75)\<close>

text \<open>One line of a counts block:
  \<open>print(f"      Tables: {validation['source'].get('tables', 0)}")\<close>.\<close>

definition counts_line :: "pyval \<Rightarrow> pystr \<Rightarrow> pystr \<Rightarrow> pystr \<Rightarrow> unit io" where
  "counts_line validation section label key =
     io_bind (lift (py_index validation section)) (\<lambda>counts.
     io_bind (lift (py_get counts key (PInt 0))) (\<lambda>n.
     print [Lit label, Fmt n]))"

text \<open>Lines 58-63 with \<open>section = 'source'\<close>, lines 65-70 with \<open>section = 'notion'\<close>: the two
  blocks of the source differ in the key and the header only.\<close>

definition print_counts :: "pyval \<Rightarrow> pystr \<Rightarrow> pystr \<Rightarrow> unit io" where
  "print_counts validation section header =
     io_bind (lift (py_in section validation)) (\<lambda>present.
     if present then
       io_bind (print [Lit header]) (\<lambda>_.
       io_bind (counts_line validation section (ascii ''      Tables: '') (ascii ''tables'')) (\<lambda>_.
       io_bind (counts_line validation section (ascii ''      Images: '') (ascii ''images'')) (\<lambda>_.
       io_bind (counts_line validation section (ascii ''      Lists: '') (ascii ''lists'')) (\<lambda>_.
       counts_line validation section (ascii ''      Callouts: '') (ascii ''callouts'')))))
     else ret ())"

text \<open>The loop of lines 74-75.\<close>

fun print_each :: "pyval list \<Rightarrow> unit io" where
  "print_each [] = ret ()"
| "print_each (error # errors) =
     io_bind (print [Lit (ascii ''      - ''), Fmt error]) (\<lambda>_. print_each errors)"

text \<open>Lines 72-75. \<open>and\<close> evaluates its right operand only when the left one holds.\<close>

definition print_errors :: "pyval \<Rightarrow> unit io" where
  "print_errors validation =
     io_bind (lift (py_in (ascii ''errors'') validation)) (\<lambda>present.
     io_bind (if present
              then io_bind (lift (py_index validation (ascii ''errors''))) (\<lambda>errors.
                   ret (truthy errors))
              else ret False) (\<lambda>nonempty.
     if nonempty then
       io_bind (print [Lit (ascii ''\<newline>   '' @ [0x26A0, 0xFE0F] @ ascii '' Errors:'')]) (\<lambda>_.
       io_bind (lift (py_index validation (ascii ''errors''))) (\<lambda>errors.
       io_bind (lift (py_iter errors)) print_each))
     else ret ()))"

subsection \<open>The test (lines 14-77) and the entry point (lines 79-81)\<close>

text \<open>The request body of lines 23-32.\<close>

definition payload :: "pystr \<Rightarrow> pyval" where
  "payload html_content =
     PDict [
       (ascii ''title'', PStr (ascii ''Performance Overview (TEST FIX v3)'')),
       (ascii ''databaseId'', PStr DATABASE_ID),
       (ascii ''contentHtml'', PStr html_content),
       (ascii ''url'', PStr (ascii ''https://example.servicenow.com/'' @ HTML_FILE_name)),
       (ascii ''properties'', PDict [
          (ascii ''Source'', PStr (ascii ''ServiceNow KB'')),
          (ascii ''Status'', PStr (ascii ''Published''))])]"

text \<open>Lines 44-77: what the test does with the decoded response.\<close>

definition report :: "pyval \<Rightarrow> bool io" where
  "report result =
     io_bind (lift (py_get result (ascii ''success'') PNone)) (\<lambda>success.
     if \<not> truthy success then
       io_bind (print [Lit ([0x274C] @ ascii '' Page creation failed'')]) (\<lambda>_.
       io_bind (print [Dumps result 2]) (\<lambda>_.
       ret False))
     else
       io_bind (lift (py_get result (ascii ''pageId'') PNone)) (\<lambda>page_id.
       io_bind (lift (py_get result (ascii ''validation'') (PDict []))) (\<lambda>validation.
       io_bind (lift (py_get validation (ascii ''hasErrors'') (PBool True))) (\<lambda>has_errors.
       io_bind (print [Lit ([0x2705] @ ascii '' Page created: ''), Fmt page_id]) (\<lambda>_.
       io_bind (lift (py_get result (ascii ''url'') PNone)) (\<lambda>url.
       io_bind (print [Lit (ascii ''   URL: ''), Fmt url]) (\<lambda>_.
       io_bind (print [Lit (ascii ''\<newline>'' @ [0x1F4CA] @ ascii '' Validation Results:'')]) (\<lambda>_.
       io_bind (print [Lit (ascii ''   Has Errors: ''), Fmt has_errors]) (\<lambda>_.
       io_bind (print_counts validation (ascii ''source'') (ascii ''\<newline>   Source counts:'')) (\<lambda>_.
       io_bind (print_counts validation (ascii ''notion'') (ascii ''\<newline>   Notion counts:'')) (\<lambda>_.
       io_bind (print_errors validation) (\<lambda>_.
       ret (\<not> truthy has_errors)))))))))))))"

definition test_callout_fix :: "env \<Rightarrow> bool io" where
  "test_callout_fix env =
     io_bind (print [Lit ([0x1F4C4] @ ascii '' Testing callout fix with: ''), Fmt (PStr HTML_FILE_name)]) (\<lambda>_.
     io_bind (open_read env HTML_FILE) (\<lambda>html_content.
     io_bind (print [Lit ([0x1F680] @ ascii '' Creating page...'')]) (\<lambda>_.
     io_bind (requests_post env (SERVER_URL @ ascii ''/api/W2N'') (payload html_content) 120) (\<lambda>response.
     if status_code response \<noteq> 200 then
       io_bind (print [Lit ([0x274C] @ ascii '' Error: HTTP ''), Fmt (PInt (status_code response))]) (\<lambda>_.
       io_bind (print [Fmt (PStr (resp_text response))]) (\<lambda>_.
       ret False))
     else
       io_bind (response_json response) report))))"

text \<open>
  \<open>sys.exit(0 if success else 1)\<close>. An exception nobody catches ends the interpreter with
  exit status 1. The result is the log of the run and the exit status.
\<close>

definition main :: "env \<Rightarrow> event list \<times> int" where
  "main env =
     (case test_callout_fix env of
        (out, Inr success) \<Rightarrow> (out, if success then 0 else 1)
      | (out, Inl e) \<Rightarrow> (out, 1))"

section \<open>Vocabulary of the properties\<close>

text \<open>The log of a run up to the file read, and up to the POST of the fixture text
  \<open>html_content\<close>.\<close>

definition started :: "event list" where
  "started =
     [Print [Lit ([0x1F4C4] @ ascii '' Testing callout fix with: ''), Fmt (PStr HTML_FILE_name)],
      OpenRead HTML_FILE]"

definition posted :: "pystr \<Rightarrow> event list" where
  "posted html_content =
     started @
     [Print [Lit ([0x1F680] @ ascii '' Creating page...'')],
      HttpPost (ascii ''http://localhost:3004/api/W2N'') (payload html_content) 120]"

text \<open>The POST events of a log.\<close>

fun is_post :: "event \<Rightarrow> bool" where
  "is_post (HttpPost url body timeout) = True"
| "is_post _ = False"

definition posts :: "event list \<Rightarrow> event list" where
  "posts out = filter is_post out"

text \<open>The run read the fixture text \<open>html_content\<close> and its POST returned \<open>response\<close>.\<close>

definition gets_response :: "env \<Rightarrow> pystr \<Rightarrow> response \<Rightarrow> bool" where
  "gets_response env html_content response \<longleftrightarrow>
     read_file env HTML_FILE = Inr html_content \<and>
     http_post env (ascii ''http://localhost:3004/api/W2N'') (payload html_content) 120
       = Inr response"

text \<open>The HTTP call succeeded and its body was decoded: the fixture was read, the POST
  returned a response with status 200, and \<open>response.json()\<close> returned a value.\<close>

definition parsed_response :: "env \<Rightarrow> pyval option" where
  "parsed_response env =
     (case read_file env HTML_FILE of
        Inl e \<Rightarrow> None
      | Inr html_content \<Rightarrow>
          (case http_post env (ascii ''http://localhost:3004/api/W2N'') (payload html_content) 120 of
             Inl e \<Rightarrow> None
           | Inr response \<Rightarrow>
               if status_code response = 200
               then (case resp_json response of Inl e \<Rightarrow> None | Inr result \<Rightarrow> Some result)
               else None))"

text \<open>The two lines of the HTTP error path (lines 38-39).\<close>

definition status_line :: "response \<Rightarrow> event" where
  "status_line response =
     Print [Lit ([0x274C] @ ascii '' Error: HTTP ''), Fmt (PInt (status_code response))]"

definition body_line :: "response \<Rightarrow> event" where
  "body_line response = Print [Fmt (PStr (resp_text response))]"

text \<open>The two lines of the failure branch (lines 45-46).\<close>

definition failure_lines :: "pyval \<Rightarrow> event list" where
  "failure_lines result =
     [Print [Lit ([0x274C] @ ascii '' Page creation failed'')], Print [Dumps result 2]]"

text \<open>The first four lines of the summary (lines 53-56) for the result object \<open>r\<close> and its
  validation object \<open>v\<close>.\<close>

definition has_errors_line :: "pyval \<Rightarrow> event" where
  "has_errors_line has_errors = Print [Lit (ascii ''   Has Errors: ''), Fmt has_errors]"

definition summary_head :: "(pystr \<times> pyval) list \<Rightarrow> (pystr \<times> pyval) list \<Rightarrow> event list" where
  "summary_head r v =
     [Print [Lit ([0x2705] @ ascii '' Page created: ''), Fmt (dict_get r (ascii ''pageId'') PNone)],
      Print [Lit (ascii ''   URL: ''), Fmt (dict_get r (ascii ''url'') PNone)],
      Print [Lit (ascii ''\<newline>'' @ [0x1F4CA] @ ascii '' Validation Results:'')],
      has_errors_line (dict_get v (ascii ''hasErrors'') (PBool True))]"

text \<open>The first four lines can be written: the page id and the URL (\<open>None\<close> when absent)
  and the value of \<open>hasErrors\<close> (true when absent) are printable.\<close>

definition head_prints :: "(pystr \<times> pyval) list \<Rightarrow> (pystr \<times> pyval) list \<Rightarrow> bool" where
  "head_prints r v \<longleftrightarrow>
     printable (dict_get r (ascii ''pageId'') PNone) \<and>
     printable (dict_get r (ascii ''url'') PNone) \<and>
     printable (dict_get v (ascii ''hasErrors'') (PBool True))"

text \<open>What a line of a counts block shows for a counter of the counts object \<open>c\<close>: its
  value, and 0 when the object lacks it.\<close>

definition shown :: "(pystr \<times> pyval) list \<Rightarrow> pystr \<Rightarrow> pyval" where
  "shown c key = (case map_of c key of None \<Rightarrow> PInt 0 | Some n \<Rightarrow> n)"

text \<open>The five lines of a whole counts block.\<close>

definition counts_block :: "pystr \<Rightarrow> (pystr \<times> pyval) list \<Rightarrow> event list" where
  "counts_block header c =
     [Print [Lit header],
      Print [Lit (ascii ''      Tables: ''), Fmt (shown c (ascii ''tables''))],
      Print [Lit (ascii ''      Images: ''), Fmt (shown c (ascii ''images''))],
      Print [Lit (ascii ''      Lists: ''), Fmt (shown c (ascii ''lists''))],
      Print [Lit (ascii ''      Callouts: ''), Fmt (shown c (ascii ''callouts''))]]"

text \<open>Every counter the counts object holds under one of the four names is printable; an
  absent counter asks for nothing.\<close>

definition counter_names :: "pystr list" where
  "counter_names = [ascii ''tables'', ascii ''images'', ascii ''lists'', ascii ''callouts'']"

definition counters_printable :: "(pystr \<times> pyval) list \<Rightarrow> bool" where
  "counters_printable c =
     list_all (\<lambda>key. case map_of c key of None \<Rightarrow> True | Some n \<Rightarrow> printable n) counter_names"

text \<open>The counts block for \<open>section\<close> (\<open>source\<close> or \<open>notion\<close>) prints without raising: the
  validation lacks the key, or holds an object under it whose counters are printable. Its
  log is then empty, or the whole block.\<close>

definition counts_ok :: "(pystr \<times> pyval) list \<Rightarrow> pystr \<Rightarrow> bool" where
  "counts_ok v section =
     (case map_of v section of
        None \<Rightarrow> True
      | Some (PDict c) \<Rightarrow> counters_printable c
      | Some _ \<Rightarrow> False)"

definition counts_log :: "pystr \<Rightarrow> (pystr \<times> pyval) list \<Rightarrow> pystr \<Rightarrow> event list" where
  "counts_log header v section =
     (case map_of v section of Some (PDict c) \<Rightarrow> counts_block header c | _ \<Rightarrow> [])"

text \<open>The header of the errors block and one warning line per entry.\<close>

definition warning_lines :: "pyval list \<Rightarrow> event list" where
  "warning_lines entries =
     Print [Lit (ascii ''\<newline>   '' @ [0x26A0, 0xFE0F] @ ascii '' Errors:'')]
       # map (\<lambda>entry. Print [Lit (ascii ''      - ''), Fmt entry]) entries"

text \<open>The errors block prints without raising: the validation lacks \<open>errors\<close>, or it is
  falsy, or it can be iterated over and every item is printable.\<close>

definition errors_ok :: "(pystr \<times> pyval) list \<Rightarrow> bool" where
  "errors_ok v =
     (case map_of v (ascii ''errors'') of
        None \<Rightarrow> True
      | Some errors \<Rightarrow>
          if truthy errors
          then (case py_iter errors of Inl e \<Rightarrow> False | Inr items \<Rightarrow> list_all printable items)
          else True)"

text \<open>The whole summary (lines 53-75) prints without raising.\<close>

definition summary_completes :: "(pystr \<times> pyval) list \<Rightarrow> (pystr \<times> pyval) list \<Rightarrow> bool" where
  "summary_completes r v \<longleftrightarrow>
     head_prints r v \<and>
     counts_ok v (ascii ''source'') \<and> counts_ok v (ascii ''notion'') \<and> errors_ok v"

subsection \<open>Example runs\<close>

text \<open>A world whose fixture reads as \<open>file\<close> and whose service answers every POST with
  \<open>answer\<close>.\<close>

definition world :: "exn + pystr \<Rightarrow> exn + response \<Rightarrow> env" where
  "world file answer =
     \<lparr>read_file = (\<lambda>path. file), http_post = (\<lambda>url body timeout. answer)\<rparr>"

definition fixture :: pystr where
  "fixture = ascii ''<table></table><table></table><div class=note>callout</div>''"

text \<open>A service that answers with the given status, body text and decoded body.\<close>

definition reply :: "int \<Rightarrow> pystr \<Rightarrow> exn + pyval \<Rightarrow> response" where
  "reply code body decoded = \<lparr>status_code = code, resp_text = body, resp_json = decoded\<rparr>"

definition service :: "int \<Rightarrow> pystr \<Rightarrow> exn + pyval \<Rightarrow> env" where
  "service code body decoded = world (Inr fixture) (Inr (reply code body decoded))"

definition counts :: "int \<Rightarrow> int \<Rightarrow> int \<Rightarrow> int \<Rightarrow> pyval" where
  "counts t i l c =
     PDict [(ascii ''tables'', PInt t), (ascii ''images'', PInt i),
            (ascii ''lists'', PInt l), (ascii ''callouts'', PInt c)]"

text \<open>The response of the spec's first scenario: a page created without errors.\<close>

definition created_items :: "(pystr \<times> pyval) list \<Rightarrow> (pystr \<times> pyval) list" where
  "created_items validation =
     [(ascii ''success'', PBool True),
      (ascii ''pageId'', PStr (ascii ''abc123'')),
      (ascii ''url'', PStr (ascii ''https://notion.so/abc123'')),
      (ascii ''validation'', PDict validation)]"

definition created :: "(pystr \<times> pyval) list \<Rightarrow> pyval" where
  "created validation = PDict (created_items validation)"

definition clean_validation :: "(pystr \<times> pyval) list" where
  "clean_validation =
     [(ascii ''hasErrors'', PBool False),
      (ascii ''source'', counts 2 0 0 1),
      (ascii ''notion'', counts 2 0 0 1)]"

text \<open>A validation without errors whose \<open>source\<close> is null, and one that lists the given
  errors.\<close>

definition null_source :: "(pystr \<times> pyval) list" where
  "null_source = [(ascii ''hasErrors'', PBool False), (ascii ''source'', PNone)]"

definition with_errors :: "pyval list \<Rightarrow> (pystr \<times> pyval) list" where
  "with_errors errors = clean_validation @ [(ascii ''errors'', PList errors)]"

text \<open>The str that \<open>response.json()\<close> yields for the JSON string \<open>"\ud800"\<close>: one lone
  surrogate.\<close>

definition lone_surrogate :: pystr where
  "lone_surrogate = [0xD800]"

text \<open>A validation without errors whose \<open>source\<close> holds that str as its \<open>tables\<close> counter
  and lacks the other three counters.\<close>

definition odd_tables :: "(pystr \<times> pyval) list" where
  "odd_tables =
     [(ascii ''hasErrors'', PBool False),
      (ascii ''source'', PDict [(ascii ''tables'', PStr lone_surrogate)])]"

text \<open>A validation without errors whose \<open>source\<close> has the counter \<open>tables\<close> only and
  whose \<open>notion\<close> has no counter at all.\<close>

definition sparse_counts :: "(pystr \<times> pyval) list" where
  "sparse_counts =
     [(ascii ''hasErrors'', PBool False),
      (ascii ''source'', PDict [(ascii ''tables'', PInt 2)]),
      (ascii ''notion'', PDict [])]"

section \<open>Properties\<close>

subsection \<open>Running a computation step by step\<close>

lemma ascii_eq_iff [simp]: "ascii s = ascii t \<longleftrightarrow> s = t"
  unfolding ascii_def by (simp add: inj_on_def)

lemma encodable_Nil [simp]: "encodable []"
  by (simp add: encodable_def)

lemma encodable_Cons [simp]: "encodable (c # s) \<longleftrightarrow> \<not> surrogate c \<and> encodable s"
  by (simp add: encodable_def)

lemma encodable_append [simp]: "encodable (s @ t) \<longleftrightarrow> encodable s \<and> encodable t"
  by (simp add: encodable_def)

lemma of_char_less_256: "(of_char c :: nat) < 256"
  by (cases c) simp

lemma encodable_ascii [simp]: "encodable (ascii s)"
proof -
  have "\<not> surrogate (of_char c)" for c
    using of_char_less_256 [of c] unfolding surrogate_def by linarith
  then show ?thesis
    by (simp add: encodable_def ascii_def list_all_iff)
qed

lemma io_bind_raise [simp]: "io_bind (es, Inl e) f = (es, Inl e)"
  by (simp add: io_bind_def)

lemma io_bind_value [simp]: "io_bind (es, Inr x) f = (es @ fst (f x), snd (f x))"
  by (simp add: io_bind_def split: prod.splits)

lemma io_bind_ret [simp]: "io_bind (ret x) f = f x"
  by (simp add: ret_def)

lemma io_bind_print [simp]:
  "io_bind (print ps) f =
     (if list_all piece_encodable ps then (Print ps # fst (f ()), snd (f ()))
      else ([], Inl UnicodeEncodeError))"
  by (simp add: print_def)

lemma io_bind_lift_Inr [simp]: "io_bind (lift (Inr x)) f = f x"
  by (simp add: lift_def)

lemma io_bind_lift_Inl [simp]: "io_bind (lift (Inl e)) f = ([], Inl e)"
  by (simp add: lift_def)

lemma fst_io_bind:
  "fst (io_bind m f) = (case snd m of Inl e \<Rightarrow> fst m | Inr x \<Rightarrow> fst m @ fst (f x))"
  by (cases m) (simp add: io_bind_def split: sum.splits prod.splits)

lemma snd_io_bind:
  "snd (io_bind m f) = (case snd m of Inl e \<Rightarrow> Inl e | Inr x \<Rightarrow> snd (f x))"
  by (cases m) (simp add: io_bind_def split: sum.splits prod.splits)

lemma fst_print [simp]:
  "fst (print ps) = (if list_all piece_encodable ps then [Print ps] else [])"
  by (simp add: print_def)

lemma snd_print [simp]:
  "snd (print ps) = (if list_all piece_encodable ps then Inr () else Inl UnicodeEncodeError)"
  by (simp add: print_def)

lemma unit_io_returns: "(\<exists>x. snd (m :: unit io) = Inr x) \<longleftrightarrow> snd m = Inr ()"
  by auto

subsection \<open>What each part of the script logs and returns\<close>

lemma print_each_printable:
  "list_all printable items \<Longrightarrow>
   print_each items = (map (\<lambda>entry. Print [Lit (ascii ''      - ''), Fmt entry]) items, Inr ())"
  by (induction items) (simp_all add: ret_def)

lemma snd_print_each: "snd (print_each items) = Inr () \<longleftrightarrow> list_all printable items"
  by (induction items) (simp_all add: ret_def)

lemma py_in_dict: "py_in key (PDict kvs) = Inr (map_of kvs key \<noteq> None)"
  by (simp add: map_of_eq_None_iff)

declare py_in.simps(1) [simp del]

declare py_in_dict [simp]

lemma py_index_present [simp]: "map_of kvs key = Some x \<Longrightarrow> py_index (PDict kvs) key = Inr x"
  by simp

lemma shown_eq: "dict_get c key (PInt 0) = shown c key"
  by (simp add: dict_get_def shown_def)

lemma counters_printable_shown:
  "counters_printable c \<longleftrightarrow>
     printable (shown c (ascii ''tables'')) \<and> printable (shown c (ascii ''images'')) \<and>
     printable (shown c (ascii ''lists'')) \<and> printable (shown c (ascii ''callouts''))"
  by (simp add: counters_printable_def counter_names_def shown_def split: option.splits)

lemma counts_line_dict:
  "map_of v section = Some (PDict c) \<Longrightarrow> encodable label \<Longrightarrow>
   counts_line (PDict v) section label key =
     (if printable (shown c key) then ([Print [Lit label, Fmt (shown c key)]], Inr ())
      else ([], Inl UnicodeEncodeError))"
  by (simp add: counts_line_def shown_eq print_def)

lemma print_counts_absent:
  "map_of v section = None \<Longrightarrow> print_counts (PDict v) section header = ([], Inr ())"
  by (simp add: print_counts_def ret_def)

lemma print_counts_not_dict:
  "map_of v section = Some x \<Longrightarrow> (\<And>c. x \<noteq> PDict c) \<Longrightarrow> encodable header \<Longrightarrow>
   print_counts (PDict v) section header = ([Print [Lit header]], Inl AttributeError)"
  by (cases x) (auto simp add: print_counts_def counts_line_def)

lemma print_counts_block:
  "map_of v section = Some (PDict c) \<Longrightarrow> encodable header \<Longrightarrow> counters_printable c \<Longrightarrow>
   print_counts (PDict v) section header = (counts_block header c, Inr ())"
  by (simp add: print_counts_def counts_line_dict counters_printable_shown
      counts_block_def)

lemma snd_print_counts_block:
  "map_of v section = Some (PDict c) \<Longrightarrow> encodable header \<Longrightarrow>
   snd (print_counts (PDict v) section header) = Inr () \<longleftrightarrow> counters_printable c"
  by (simp add: print_counts_def counts_line_dict counters_printable_shown)

lemma snd_print_counts:
  assumes "encodable header"
  shows "snd (print_counts (PDict v) section header) = Inr () \<longleftrightarrow> counts_ok v section"
proof (cases "map_of v section")
  case None
  then show ?thesis by (simp add: print_counts_absent counts_ok_def)
next
  case (Some x)
  show ?thesis
  proof (cases "\<exists>c. x = PDict c")
    case True
    then obtain c where "x = PDict c" ..
    with Some assms show ?thesis by (simp add: snd_print_counts_block counts_ok_def)
  next
    case False
    then have "print_counts (PDict v) section header = ([Print [Lit header]], Inl AttributeError)"
      using Some assms by (intro print_counts_not_dict) auto
    moreover have "\<not> counts_ok v section"
      using Some False by (cases x) (simp_all add: counts_ok_def)
    ultimately show ?thesis by simp
  qed
qed

lemma print_counts_complete:
  assumes "encodable header" and "counts_ok v section"
  shows "print_counts (PDict v) section header = (counts_log header v section, Inr ())"
proof (cases "map_of v section")
  case None
  then show ?thesis by (simp add: print_counts_absent counts_log_def)
next
  case (Some x)
  with assms(2) obtain c where "x = PDict c" and "counters_printable c"
    by (cases x) (simp_all add: counts_ok_def)
  with Some assms(1) show ?thesis by (simp add: print_counts_block counts_log_def)
qed

lemma print_errors_absent:
  "map_of v (ascii ''errors'') = None \<Longrightarrow> print_errors (PDict v) = ([], Inr ())"
  by (simp add: print_errors_def ret_def)

lemma print_errors_falsy:
  "map_of v (ascii ''errors'') = Some errors \<Longrightarrow> \<not> truthy errors \<Longrightarrow>
   print_errors (PDict v) = ([], Inr ())"
  by (simp add: print_errors_def ret_def)

lemma print_errors_truthy:
  "map_of v (ascii ''errors'') = Some errors \<Longrightarrow> truthy errors \<Longrightarrow>
   print_errors (PDict v) =
     io_bind (print [Lit (ascii ''\<newline>   '' @ [0x26A0, 0xFE0F] @ ascii '' Errors:'')]) (\<lambda>_.
     io_bind (lift (py_iter errors)) print_each)"
  by (simp add: print_errors_def ret_def surrogate_def)

lemma print_errors_list:
  "map_of v (ascii ''errors'') = Some (PList entries) \<Longrightarrow> list_all printable entries \<Longrightarrow>
   print_errors (PDict v) = (if entries = [] then [] else warning_lines entries, Inr ())"
  by (cases "entries = []")
    (simp_all add: print_errors_falsy print_errors_truthy print_each_printable
      warning_lines_def surrogate_def)

lemma snd_print_errors: "snd (print_errors (PDict v)) = Inr () \<longleftrightarrow> errors_ok v"
proof (cases "map_of v (ascii ''errors'')")
  case None
  then show ?thesis by (simp add: print_errors_absent errors_ok_def)
next
  case (Some errors)
  show ?thesis
  proof (cases "truthy errors")
    case False
    with Some show ?thesis by (simp add: print_errors_falsy errors_ok_def)
  next
    case True
    with Some show ?thesis
      by (cases "py_iter errors")
        (simp_all add: print_errors_truthy errors_ok_def surrogate_def snd_print_each)
  qed
qed

lemma test_callout_fix_eq:
  "test_callout_fix env =
     (case read_file env HTML_FILE of
        Inl e \<Rightarrow> (started, Inl e)
      | Inr html_content \<Rightarrow>
          (case http_post env (ascii ''http://localhost:3004/api/W2N'') (payload html_content) 120 of
             Inl e \<Rightarrow> (posted html_content, Inl e)
           | Inr response \<Rightarrow>
               if status_code response \<noteq> 200 then
                 if encodable (resp_text response)
                 then (posted html_content @ [status_line response, body_line response], Inr False)
                 else (posted html_content @ [status_line response], Inl UnicodeEncodeError)
               else
                 (case resp_json response of
                    Inl e \<Rightarrow> (posted html_content @ [JsonDecode], Inl e)
                  | Inr result \<Rightarrow>
                      (posted html_content @ JsonDecode # fst (report result),
                       snd (report result)))))"
proof -
  have url: "SERVER_URL @ ascii ''/api/W2N'' = ascii ''http://localhost:3004/api/W2N''"
    by (simp add: SERVER_URL_def ascii_def)
  show ?thesis
    unfolding test_callout_fix_def url open_read_def requests_post_def response_json_def
    by (simp add: started_def posted_def ret_def status_line_def body_line_def
        HTML_FILE_name_def surrogate_def split: sum.splits)
qed

lemma report_not_dict:
  "(\<And>r. result \<noteq> PDict r) \<Longrightarrow> report result = ([], Inl AttributeError)"
  unfolding report_def by (cases result) auto

lemma report_failed:
  "\<not> truthy (dict_get r (ascii ''success'') PNone) \<Longrightarrow>
   report (PDict r) = (failure_lines (PDict r), Inr False)"
  unfolding report_def by (simp add: ret_def failure_lines_def surrogate_def)

lemma report_validation_not_dict:
  "truthy (dict_get r (ascii ''success'') PNone) \<Longrightarrow>
   (\<And>v. dict_get r (ascii ''validation'') (PDict []) \<noteq> PDict v) \<Longrightarrow>
   report (PDict r) = ([], Inl AttributeError)"
  unfolding report_def by (cases "dict_get r (ascii ''validation'') (PDict [])") auto

lemma snd_report:
  assumes "truthy (dict_get r (ascii ''success'') PNone)"
    and "dict_get r (ascii ''validation'') (PDict []) = PDict v"
  shows "snd (report (PDict r)) = Inr b \<longleftrightarrow>
     summary_completes r v \<and> b = (\<not> truthy (dict_get v (ascii ''hasErrors'') (PBool True)))"
proof -
  have source: "snd (print_counts (PDict v) (ascii ''source'') (ascii ''\<newline>   Source counts:'')) = Inr ()
      \<longleftrightarrow> counts_ok v (ascii ''source'')"
    and notion: "snd (print_counts (PDict v) (ascii ''notion'') (ascii ''\<newline>   Notion counts:'')) = Inr ()
      \<longleftrightarrow> counts_ok v (ascii ''notion'')"
    by (simp_all add: snd_print_counts)
  show ?thesis
    unfolding report_def using assms source notion snd_print_errors [of v]
    by (auto simp add: snd_io_bind ret_def surrogate_def summary_completes_def head_prints_def
        split: sum.splits)
qed

lemma fst_report:
  assumes "truthy (dict_get r (ascii ''success'') PNone)"
    and "dict_get r (ascii ''validation'') (PDict []) = PDict v"
    and "head_prints r v"
  shows "fst (report (PDict r)) =
     summary_head r v
     @ fst (print_counts (PDict v) (ascii ''source'') (ascii ''\<newline>   Source counts:''))
     @ (if counts_ok v (ascii ''source'')
        then fst (print_counts (PDict v) (ascii ''notion'') (ascii ''\<newline>   Notion counts:''))
             @ (if counts_ok v (ascii ''notion'') then fst (print_errors (PDict v)) else [])
        else [])"
proof -
  have source: "snd (print_counts (PDict v) (ascii ''source'') (ascii ''\<newline>   Source counts:'')) = Inr ()
      \<longleftrightarrow> counts_ok v (ascii ''source'')"
    and notion: "snd (print_counts (PDict v) (ascii ''notion'') (ascii ''\<newline>   Notion counts:'')) = Inr ()
      \<longleftrightarrow> counts_ok v (ascii ''notion'')"
    by (simp_all add: snd_print_counts)
  show ?thesis
    unfolding report_def using assms source notion
    by (auto simp add: fst_io_bind ret_def surrogate_def summary_head_def has_errors_line_def
        head_prints_def split: sum.splits)
qed

subsection \<open>The outcomes of a run\<close>

lemma main_eq:
  "main env =
     (fst (test_callout_fix env),
      case snd (test_callout_fix env) of Inl e \<Rightarrow> 1 | Inr success \<Rightarrow> if success then 0 else 1)"
  by (simp add: main_def split: prod.splits sum.splits)

lemma exit_code_cases: "snd (main env) = 0 \<or> snd (main env) = 1"
  by (simp add: main_eq split: sum.splits)

lemma main_read_fails:
  "read_file env HTML_FILE = Inl e \<Longrightarrow> main env = (started, 1)"
  by (simp add: main_eq test_callout_fix_eq)

lemma main_http_error:
  "gets_response env html_content response \<Longrightarrow> status_code response \<noteq> 200 \<Longrightarrow>
   main env =
     (posted html_content @ status_line response
        # (if encodable (resp_text response) then [body_line response] else []),
      1)"
  by (simp add: main_eq test_callout_fix_eq gets_response_def)

lemma main_decode_fails:
  "gets_response env html_content response \<Longrightarrow> status_code response = 200 \<Longrightarrow>
   resp_json response = Inl e \<Longrightarrow>
   main env = (posted html_content @ [JsonDecode], 1)"
  by (simp add: main_eq test_callout_fix_eq gets_response_def)

lemma main_decoded:
  "gets_response env html_content response \<Longrightarrow> status_code response = 200 \<Longrightarrow>
   resp_json response = Inr result \<Longrightarrow>
   main env =
     (posted html_content @ JsonDecode # fst (report result),
      case snd (report result) of Inl e \<Rightarrow> 1 | Inr success \<Rightarrow> if success then 0 else 1)"
  by (simp add: main_eq test_callout_fix_eq gets_response_def)

lemma main_failed:
  "gets_response env html_content response \<Longrightarrow> status_code response = 200 \<Longrightarrow>
   resp_json response = Inr (PDict r) \<Longrightarrow>
   \<not> truthy (dict_get r (ascii ''success'') PNone) \<Longrightarrow>
   main env =
     (posted html_content @
        [JsonDecode,
         Print [Lit ([0x274C] @ ascii '' Page creation failed'')],
         Print [Dumps (PDict r) 2]],
      1)"
  by (simp add: main_decoded report_failed failure_lines_def)

lemma gets_response_service [simp]:
  "gets_response (service code body decoded) html_content response \<longleftrightarrow>
     html_content = fixture \<and> response = reply code body decoded"
  by (auto simp add: gets_response_def service_def world_def)

lemma reply_simps [simp]:
  "status_code (reply code body decoded) = code"
  "resp_text (reply code body decoded) = body"
  "resp_json (reply code body decoded) = decoded"
  by (simp_all add: reply_def)

lemma parsed_response_service [simp]:
  "parsed_response (service 200 body (Inr result)) = Some result"
  by (simp add: parsed_response_def service_def world_def reply_def)

lemma snd_main:
  "snd (main env) =
     (case parsed_response env of
        None \<Rightarrow> 1
      | Some result \<Rightarrow>
          (case snd (report result) of Inl e \<Rightarrow> 1 | Inr success \<Rightarrow> if success then 0 else 1))"
  by (simp add: main_eq test_callout_fix_eq parsed_response_def split: sum.splits)

lemma report_returns_True_iff:
  "snd (report result) = Inr True \<longleftrightarrow>
     (\<exists>r v. result = PDict r
        \<and> truthy (dict_get r (ascii ''success'') PNone)
        \<and> dict_get r (ascii ''validation'') (PDict []) = PDict v
        \<and> \<not> truthy (dict_get v (ascii ''hasErrors'') (PBool True))
        \<and> summary_completes r v)"
proof (cases "\<exists>r. result = PDict r")
  case False
  then show ?thesis by (auto simp add: report_not_dict)
next
  case True
  then obtain r where r: "result = PDict r" ..
  show ?thesis
  proof (cases "truthy (dict_get r (ascii ''success'') PNone)")
    case False
    then show ?thesis by (simp add: r report_failed)
  next
    case success: True
    show ?thesis
    proof (cases "\<exists>v. dict_get r (ascii ''validation'') (PDict []) = PDict v")
      case False
      with success show ?thesis by (simp add: r report_validation_not_dict)
    next
      case True
      then obtain v where v: "dict_get r (ascii ''validation'') (PDict []) = PDict v" ..
      with success show ?thesis
        by (auto simp add: r snd_report)
    qed
  qed
qed

subsection \<open>The POST events of a log\<close>

lemma JsonDecode_not_posted [simp]: "JsonDecode \<notin> set (posted html_content)"
  by (simp add: posted_def started_def)

lemma posts_posted [simp]:
  "posts (posted html_content) =
     [HttpPost (ascii ''http://localhost:3004/api/W2N'') (payload html_content) 120]"
  by (simp add: posts_def posted_def started_def)

lemma posts_append [simp]: "posts (xs @ ys) = posts xs @ posts ys"
  by (simp add: posts_def)

lemma posts_Cons_Print [simp]: "posts (Print ps # xs) = posts xs"
  by (simp add: posts_def)

lemma posts_Cons_JsonDecode [simp]: "posts (JsonDecode # xs) = posts xs"
  by (simp add: posts_def)

lemma posts_Nil [simp]: "posts [] = []"
  by (simp add: posts_def)

lemma posts_started [simp]: "posts started = []"
  by (simp add: started_def posts_def)

lemma posts_status_line [simp]: "posts (status_line response # xs) = posts xs"
  by (simp add: status_line_def)

lemma posts_body_line [simp]: "posts (body_line response # xs) = posts xs"
  by (simp add: body_line_def)

lemma posts_io_bind:
  "posts (fst m) = [] \<Longrightarrow> (\<And>x. posts (fst (f x)) = []) \<Longrightarrow> posts (fst (io_bind m f)) = []"
  by (simp add: fst_io_bind split: sum.splits)

lemma posts_print [simp]: "posts (fst (print ps)) = []"
  by simp

lemma posts_lift [simp]: "posts (fst (lift r)) = []"
  by (simp add: lift_def)

lemma posts_ret [simp]: "posts (fst (ret x)) = []"
  by (simp add: ret_def)

lemma posts_print_each [simp]: "posts (fst (print_each items)) = []"
  by (induction items) (simp_all add: posts_io_bind del: fst_print)

lemma posts_counts_line [simp]: "posts (fst (counts_line validation section label key)) = []"
  unfolding counts_line_def by (intro posts_io_bind) simp_all

lemma posts_print_counts [simp]: "posts (fst (print_counts validation section header)) = []"
  unfolding print_counts_def by (intro posts_io_bind) (simp_all add: posts_io_bind)

lemma posts_print_errors [simp]: "posts (fst (print_errors validation)) = []"
  unfolding print_errors_def by (intro posts_io_bind) (simp_all add: posts_io_bind)

lemma posts_report [simp]: "posts (fst (report result)) = []"
  unfolding report_def by (intro posts_io_bind) (simp_all add: posts_io_bind)

lemma payload_literal:
  "payload html_content =
     PDict [
       (ascii ''title'', PStr (ascii ''Performance Overview (TEST FIX v3)'')),
       (ascii ''databaseId'', PStr (ascii ''282a89fedba5815e91f0db972912ef9f'')),
       (ascii ''contentHtml'', PStr html_content),
       (ascii ''url'', PStr (ascii ''https://example.servicenow.com/performance-overview-2025-11-13T06-49-50.html'')),
       (ascii ''properties'', PDict [
          (ascii ''Source'', PStr (ascii ''ServiceNow KB'')),
          (ascii ''Status'', PStr (ascii ''Published''))])]"
  by (simp add: payload_def DATABASE_ID_def HTML_FILE_name_def ascii_def)

lemma posts_main:
  "posts (fst (main env)) =
     (case read_file env HTML_FILE of
        Inl e \<Rightarrow> []
      | Inr html_content \<Rightarrow>
          [HttpPost (ascii ''http://localhost:3004/api/W2N'') (payload html_content) 120])"
  by (simp add: main_eq test_callout_fix_eq split: sum.splits)

lemma main_starts: "\<exists>tail. fst (main env) = started @ tail"
  by (simp add: main_eq test_callout_fix_eq posted_def split: sum.splits)

lemma parsed_response_gets:
  "gets_response env html_content response \<Longrightarrow> status_code response = 200 \<Longrightarrow>
   resp_json response = Inr result \<Longrightarrow> parsed_response env = Some result"
  by (simp add: parsed_response_def gets_response_def)

lemma exit_zero_iff:
  "snd (main env) = 0 \<longleftrightarrow>
     (\<exists>r v. parsed_response env = Some (PDict r)
        \<and> truthy (dict_get r (ascii ''success'') PNone)
        \<and> dict_get r (ascii ''validation'') (PDict []) = PDict v
        \<and> \<not> truthy (dict_get v (ascii ''hasErrors'') (PBool True))
        \<and> summary_completes r v)"
proof -
  have "snd (main env) = 0 \<longleftrightarrow>
      (\<exists>result. parsed_response env = Some result \<and> snd (report result) = Inr True)"
    by (auto simp add: snd_main split: option.splits sum.splits)
  then show ?thesis
    by (auto simp add: report_returns_True_iff)
qed

lemma report_complete:
  assumes "truthy (dict_get r (ascii ''success'') PNone)"
    and "dict_get r (ascii ''validation'') (PDict []) = PDict v"
    and "summary_completes r v"
  shows "report (PDict r) =
     (summary_head r v
        @ counts_log (ascii ''\<newline>   Source counts:'') v (ascii ''source'')
        @ counts_log (ascii ''\<newline>   Notion counts:'') v (ascii ''notion'')
        @ fst (print_errors (PDict v)),
      Inr (\<not> truthy (dict_get v (ascii ''hasErrors'') (PBool True))))"
proof -
  from assms(3) have head: "head_prints r v"
    and source: "counts_ok v (ascii ''source'')" and notion: "counts_ok v (ascii ''notion'')"
    by (simp_all add: summary_completes_def)
  have "snd (report (PDict r)) = Inr (\<not> truthy (dict_get v (ascii ''hasErrors'') (PBool True)))"
    using snd_report [OF assms(1,2)] assms(3) by simp
  moreover have "fst (report (PDict r)) =
      summary_head r v
        @ counts_log (ascii ''\<newline>   Source counts:'') v (ascii ''source'')
        @ counts_log (ascii ''\<newline>   Notion counts:'') v (ascii ''notion'')
        @ fst (print_errors (PDict v))"
    using source notion by (simp add: fst_report [OF assms(1,2) head] print_counts_complete)
  ultimately show ?thesis by (simp add: prod_eq_iff)
qed

lemma dict_get_cong:
  "map_of v1 key = map_of v2 key \<Longrightarrow> dict_get v1 key dflt = dict_get v2 key dflt"
  by (simp add: dict_get_def)

lemma counts_ok_cong:
  "map_of v1 section = map_of v2 section \<Longrightarrow> counts_ok v1 section = counts_ok v2 section"
  by (simp add: counts_ok_def)

lemma errors_ok_list:
  "map_of v (ascii ''errors'') = Some (PList entries) \<Longrightarrow> list_all printable entries \<Longrightarrow>
   errors_ok v"
  by (simp add: errors_ok_def)

section \<open>The claims\<close>

subsection \<open>Claim C1\<close>

text \<open>
  Claim C1, in the form that holds of the code. The exit status is 0 or 1. It is 0 exactly
  when the HTTP call succeeded and its body was decoded (the fixture was read, the POST
  returned status 200, \<open>response.json()\<close> returned), the decoded response is an object with
  a truthy \<open>success\<close>, its \<open>validation\<close> (an empty object when absent) is an object, the
  final \<open>hasErrors\<close> (true when absent) is falsy, and the summary prints without raising:
  the page id, the URL and \<open>hasErrors\<close> are printable, \<open>source\<close> and \<open>notion\<close>, when
  present, are objects whose counters are printable, and \<open>errors\<close>, when present and truthy,
  is iterable with printable items. In every other case, every exception included, it is 1.
\<close>

theorem C1_exit_code:
  "(snd (main env) = 0 \<or> snd (main env) = 1)
   \<and> (snd (main env) = 0 \<longleftrightarrow>
        (\<exists>r v. parsed_response env = Some (PDict r)
           \<and> truthy (dict_get r (ascii ''success'') PNone)
           \<and> dict_get r (ascii ''validation'') (PDict []) = PDict v
           \<and> \<not> truthy (dict_get v (ascii ''hasErrors'') (PBool True))
           \<and> summary_completes r v))"
  using exit_code_cases [of env] exit_zero_iff [of env] by blast

theorem C1_exit_code_witness:
  "snd (main (service 200 (ascii ''{}'') (Inr (created clean_validation)))) = 0
   \<and> snd (main (service 200 (ascii ''{}'')
        (Inr (created [(ascii ''hasErrors'', PBool True)])))) = 1
   \<and> snd (main (service 200 (ascii ''{}'')
        (Inr (PDict [(ascii ''success'', PBool True),
                     (ascii ''pageId'', PStr lone_surrogate),
                     (ascii ''validation'', PDict clean_validation)])))) = 1"
proof -
  let ?ok = "service 200 (ascii ''{}'') (Inr (created clean_validation))"
  let ?bad = "service 200 (ascii ''{}'') (Inr (created [(ascii ''hasErrors'', PBool True)]))"
  let ?odd = "service 200 (ascii ''{}'')
        (Inr (PDict [(ascii ''success'', PBool True),
                     (ascii ''pageId'', PStr lone_surrogate),
                     (ascii ''validation'', PDict clean_validation)]))"
  have "\<exists>r v. parsed_response ?ok = Some (PDict r)
           \<and> truthy (dict_get r (ascii ''success'') PNone)
           \<and> dict_get r (ascii ''validation'') (PDict []) = PDict v
           \<and> \<not> truthy (dict_get v (ascii ''hasErrors'') (PBool True))
           \<and> summary_completes r v"
    by (simp add: created_def created_items_def clean_validation_def counts_def dict_get_def
        summary_completes_def head_prints_def counts_ok_def errors_ok_def
        counters_printable_def counter_names_def)
  then have ok: "snd (main ?ok) = 0"
    using C1_exit_code [of ?ok] by blast
  have "\<not> (\<exists>r v. parsed_response ?bad = Some (PDict r)
           \<and> truthy (dict_get r (ascii ''success'') PNone)
           \<and> dict_get r (ascii ''validation'') (PDict []) = PDict v
           \<and> \<not> truthy (dict_get v (ascii ''hasErrors'') (PBool True))
           \<and> summary_completes r v)"
    by (simp add: created_def created_items_def dict_get_def)
  then have bad: "snd (main ?bad) = 1"
    using C1_exit_code [of ?bad] by blast
  have "\<not> (\<exists>r v. parsed_response ?odd = Some (PDict r)
           \<and> truthy (dict_get r (ascii ''success'') PNone)
           \<and> dict_get r (ascii ''validation'') (PDict []) = PDict v
           \<and> \<not> truthy (dict_get v (ascii ''hasErrors'') (PBool True))
           \<and> summary_completes r v)"
    by (simp add: dict_get_def summary_completes_def head_prints_def lone_surrogate_def
        surrogate_def)
  then have odd: "snd (main ?odd) = 1"
    using C1_exit_code [of ?odd] by blast
  from ok bad odd show ?thesis by simp
qed

text \<open>
  Claim C1, as the specification states it, fails on this run: the HTTP call succeeds with
  status 200, the decoded response has \<open>success\<close> true and \<open>validation.hasErrors\<close> false,
  but \<open>validation.source\<close> is null. Line 58 finds the key, line 60 calls \<open>.get\<close> on
  \<open>None\<close>, the AttributeError ends the run after the header of the source counts, and the
  exit status is 1, not 0.
\<close>

theorem C1_exit_code_counterexample:
  "parsed_response (service 200 (ascii ''{}'') (Inr (created null_source)))
     = Some (created null_source)
   \<and> py_get (created null_source) (ascii ''success'') PNone = Inr (PBool True)
   \<and> py_get (created null_source) (ascii ''validation'') (PDict []) = Inr (PDict null_source)
   \<and> py_get (PDict null_source) (ascii ''hasErrors'') (PBool True) = Inr (PBool False)
   \<and> test_callout_fix (service 200 (ascii ''{}'') (Inr (created null_source))) =
       (posted fixture @
          [JsonDecode,
           Print [Lit ([0x2705] @ ascii '' Page created: ''), Fmt (PStr (ascii ''abc123''))],
           Print [Lit (ascii ''   URL: ''), Fmt (PStr (ascii ''https://notion.so/abc123''))],
           Print [Lit (ascii ''\<newline>'' @ [0x1F4CA] @ ascii '' Validation Results:'')],
           Print [Lit (ascii ''   Has Errors: ''), Fmt (PBool False)],
           Print [Lit (ascii ''\<newline>   Source counts:'')]],
        Inl AttributeError)
   \<and> snd (main (service 200 (ascii ''{}'') (Inr (created null_source)))) = 1"
proof -
  have r: "report (created null_source) =
         ([Print [Lit ([0x2705] @ ascii '' Page created: ''), Fmt (PStr (ascii ''abc123''))],
           Print [Lit (ascii ''   URL: ''), Fmt (PStr (ascii ''https://notion.so/abc123''))],
           Print [Lit (ascii ''\<newline>'' @ [0x1F4CA] @ ascii '' Validation Results:'')],
           Print [Lit (ascii ''   Has Errors: ''), Fmt (PBool False)],
           Print [Lit (ascii ''\<newline>   Source counts:'')]],
          Inl AttributeError)"
    by (simp add: report_def created_def created_items_def null_source_def dict_get_def
        print_counts_def counts_line_def surrogate_def)
  have run: "test_callout_fix (service 200 (ascii ''{}'') (Inr (created null_source))) =
      (posted fixture @ JsonDecode # fst (report (created null_source)),
       snd (report (created null_source)))"
    by (simp add: test_callout_fix_eq service_def world_def reply_def)
  have gets: "py_get (created null_source) (ascii ''success'') PNone = Inr (PBool True)"
    "py_get (created null_source) (ascii ''validation'') (PDict []) = Inr (PDict null_source)"
    "py_get (PDict null_source) (ascii ''hasErrors'') (PBool True) = Inr (PBool False)"
    by (simp_all add: dict_get_def null_source_def created_def created_items_def)
  show ?thesis
    using gets by (simp add: main_eq run r)
qed

subsection \<open>Claim C2\<close>

text \<open>
  Claim C2. When the decoded response is an object whose \<open>success\<close> is \<open>false\<close>, the
  run prints the failure line and then the whole result pretty-printed
  (\<open>json.dumps(result, indent=2)\<close>), prints nothing else, and exits with status 1, whatever
  else the object holds (a \<open>validation\<close> included).
\<close>

theorem C2_success_false:
  assumes "gets_response env html_content response"
    and "status_code response = 200"
    and "resp_json response = Inr (PDict r)"
    and "map_of r (ascii ''success'') = Some (PBool False)"
  shows "main env =
     (posted html_content @
        [JsonDecode,
         Print [Lit ([0x274C] @ ascii '' Page creation failed'')],
         Print [Dumps (PDict r) 2]],
      1)"
  using assms by (intro main_failed) (simp_all add: dict_get_def)

theorem C2_success_false_witness:
  "main (service 200 (ascii ''{}'')
           (Inr (PDict [(ascii ''success'', PBool False),
                        (ascii ''validation'', PDict clean_validation)]))) =
     (posted fixture @
        [JsonDecode,
         Print [Lit ([0x274C] @ ascii '' Page creation failed'')],
         Print [Dumps (PDict [(ascii ''success'', PBool False),
                              (ascii ''validation'', PDict clean_validation)]) 2]],
      1)"
  by (rule C2_success_false [where response =
        "reply 200 (ascii ''{}'')
          (Inr (PDict [(ascii ''success'', PBool False),
                       (ascii ''validation'', PDict clean_validation)]))"])
     simp_all

subsection \<open>Claim C3\<close>

text \<open>
  Claim C3. When the decoded response has a truthy \<open>success\<close> and either no
  \<open>validation\<close>, or a \<open>validation\<close> object without the key \<open>hasErrors\<close>, the run
  exits with status 1, and it takes \<open>hasErrors\<close> to be true: when the two lines before it
  (page id and URL, lines 53-54) can be printed, the log holds the line
  \<open>Has Errors: True\<close>.
\<close>

theorem C3_missing_validation_fails:
  assumes "gets_response env html_content response"
    and "status_code response = 200"
    and "resp_json response = Inr (PDict r)"
    and "truthy (dict_get r (ascii ''success'') PNone)"
    and "map_of r (ascii ''validation'') = None
         \<or> (\<exists>v. map_of r (ascii ''validation'') = Some (PDict v)
                \<and> map_of v (ascii ''hasErrors'') = None)"
  shows "snd (main env) = 1
     \<and> (printable (dict_get r (ascii ''pageId'') PNone)
          \<and> printable (dict_get r (ascii ''url'') PNone) \<longrightarrow>
        Print [Lit (ascii ''   Has Errors: ''), Fmt (PBool True)] \<in> set (fst (main env)))"
proof -
  from assms(5) obtain v where
    v: "dict_get r (ascii ''validation'') (PDict []) = PDict v"
    and h: "dict_get v (ascii ''hasErrors'') (PBool True) = PBool True"
    by (auto simp add: dict_get_def)
  have "snd (report (PDict r)) \<noteq> Inr True"
    by (simp add: snd_report [OF assms(4) v] h)
  then have exit: "snd (main env) = 1"
    using exit_code_cases [of env]
    by (auto simp add: main_decoded [OF assms(1-3)] split: sum.splits if_splits)
  have "Print [Lit (ascii ''   Has Errors: ''), Fmt (PBool True)] \<in> set (fst (main env))"
    if "printable (dict_get r (ascii ''pageId'') PNone)"
      and "printable (dict_get r (ascii ''url'') PNone)"
  proof -
    from that have "head_prints r v" by (simp add: head_prints_def h)
    then show ?thesis
      by (simp add: main_decoded [OF assms(1-3)] fst_report [OF assms(4) v]
          summary_head_def has_errors_line_def h)
  qed
  with exit show ?thesis by blast
qed

theorem C3_missing_validation_fails_witness:
  "snd (main (service 200 (ascii ''{}'') (Inr (PDict [(ascii ''success'', PBool True)])))) = 1
   \<and> Print [Lit (ascii ''   Has Errors: ''), Fmt (PBool True)]
       \<in> set (fst (main (service 200 (ascii ''{}'') (Inr (PDict [(ascii ''success'', PBool True)])))))
   \<and> snd (main (service 200 (ascii ''{}'')
        (Inr (created [(ascii ''source'', counts 2 0 0 1)])))) = 1
   \<and> Print [Lit (ascii ''   Has Errors: ''), Fmt (PBool True)]
       \<in> set (fst (main (service 200 (ascii ''{}'')
            (Inr (created [(ascii ''source'', counts 2 0 0 1)])))))"
  using C3_missing_validation_fails [of
      "service 200 (ascii ''{}'') (Inr (PDict [(ascii ''success'', PBool True)]))" fixture
      "reply 200 (ascii ''{}'') (Inr (PDict [(ascii ''success'', PBool True)]))"
      "[(ascii ''success'', PBool True)]"]
    C3_missing_validation_fails [of
      "service 200 (ascii ''{}'') (Inr (created [(ascii ''source'', counts 2 0 0 1)]))" fixture
      "reply 200 (ascii ''{}'') (Inr (created [(ascii ''source'', counts 2 0 0 1)]))"
      "created_items [(ascii ''source'', counts 2 0 0 1)]"]
  by (simp add: created_def created_items_def dict_get_def)

subsection \<open>Claim C4\<close>

text \<open>
  Claim C4, in the form that holds of the code. When the status code of the response is
  outside 200..299, the run prints the status code, and then the raw body when the body can
  be encoded (it holds no lone surrogate); it never calls \<open>response.json()\<close>, has posted
  exactly once, and exits with status 1.
\<close>

theorem C4_non_2xx:
  assumes "gets_response env html_content response"
    and "\<not> (200 \<le> status_code response \<and> status_code response < 300)"
  shows "main env =
     (posted html_content @
        Print [Lit ([0x274C] @ ascii '' Error: HTTP ''), Fmt (PInt (status_code response))]
        # (if encodable (resp_text response)
           then [Print [Fmt (PStr (resp_text response))]] else []),
      1)
     \<and> JsonDecode \<notin> set (fst (main env))
     \<and> length (posts (fst (main env))) = 1"
proof -
  from assms(2) have "status_code response \<noteq> 200" by auto
  with assms(1) show ?thesis
    by (simp add: main_http_error status_line_def body_line_def)
qed

theorem C4_non_2xx_witness:
  "main (service 500 (ascii ''Internal Server Error'') (Inl JSONDecodeError)) =
     (posted fixture @
        [Print [Lit ([0x274C] @ ascii '' Error: HTTP ''), Fmt (PInt 500)],
         Print [Fmt (PStr (ascii ''Internal Server Error''))]],
      1)
   \<and> JsonDecode \<notin> set (fst (main (service 500 (ascii ''Internal Server Error'') (Inl JSONDecodeError))))
   \<and> length (posts (fst (main (service 500 (ascii ''Internal Server Error'') (Inl JSONDecodeError))))) = 1"
  using C4_non_2xx [of "service 500 (ascii ''Internal Server Error'') (Inl JSONDecodeError)" fixture
      "reply 500 (ascii ''Internal Server Error'') (Inl JSONDecodeError)"]
  by simp

text \<open>
  Claim C4, as the specification states it, fails on this run: the response has status 500
  and a body text that is one lone surrogate. Line 38 prints the status code, line 39 raises
  \<open>UnicodeEncodeError\<close>, and the body is never printed.
\<close>

theorem C4_non_2xx_counterexample:
  "\<not> (200 \<le> status_code (reply 500 lone_surrogate (Inl JSONDecodeError))
       \<and> status_code (reply 500 lone_surrogate (Inl JSONDecodeError)) < 300)
   \<and> gets_response (service 500 lone_surrogate (Inl JSONDecodeError)) fixture
        (reply 500 lone_surrogate (Inl JSONDecodeError))
   \<and> test_callout_fix (service 500 lone_surrogate (Inl JSONDecodeError)) =
       (posted fixture @ [Print [Lit ([0x274C] @ ascii '' Error: HTTP ''), Fmt (PInt 500)]],
        Inl UnicodeEncodeError)
   \<and> Print [Fmt (PStr lone_surrogate)]
        \<notin> set (fst (main (service 500 lone_surrogate (Inl JSONDecodeError))))"
proof -
  have e: "\<not> encodable lone_surrogate"
    by (simp add: lone_surrogate_def surrogate_def)
  have run: "test_callout_fix (service 500 lone_surrogate (Inl JSONDecodeError)) =
       (posted fixture @ [Print [Lit ([0x274C] @ ascii '' Error: HTTP ''), Fmt (PInt 500)]],
        Inl UnicodeEncodeError)"
    by (simp add: test_callout_fix_eq service_def world_def reply_def e status_line_def)
  show ?thesis
    by (simp add: main_eq run) (simp add: posted_def started_def)
qed

subsection \<open>Claim C5\<close>

text \<open>
  Claim C5. A run posts at most once. It posts exactly when the fixture was read, to
  \<open>http://localhost:3004/api/W2N\<close> (the server URL followed by \<open>/api/W2N\<close>), with a
  timeout of 120 seconds and a JSON body of exactly five fields: \<open>title\<close>,
  \<open>databaseId\<close>, \<open>contentHtml\<close> (the whole fixture text), \<open>url\<close> and \<open>properties\<close>,
  the last an object with the keys \<open>Source\<close> and \<open>Status\<close>.
\<close>

theorem C5_single_post:
  "posts (fst (main env)) =
     (case read_file env HTML_FILE of
        Inl e \<Rightarrow> []
      | Inr html_content \<Rightarrow>
          [HttpPost (ascii ''http://localhost:3004/api/W2N'')
             (PDict [
                (ascii ''title'', PStr (ascii ''Performance Overview (TEST FIX v3)'')),
                (ascii ''databaseId'', PStr (ascii ''282a89fedba5815e91f0db972912ef9f'')),
                (ascii ''contentHtml'', PStr html_content),
                (ascii ''url'', PStr (ascii ''https://example.servicenow.com/performance-overview-2025-11-13T06-49-50.html'')),
                (ascii ''properties'', PDict [
                   (ascii ''Source'', PStr (ascii ''ServiceNow KB'')),
                   (ascii ''Status'', PStr (ascii ''Published''))])])
             120])
   \<and> length (posts (fst (main env))) \<le> 1"
  by (simp add: posts_main payload_literal [symmetric] split: sum.splits)

theorem C5_single_post_witness:
  "posts (fst (main (service 200 (ascii ''{}'') (Inr (created clean_validation))))) =
     [HttpPost (ascii ''http://localhost:3004/api/W2N'')
        (PDict [
           (ascii ''title'', PStr (ascii ''Performance Overview (TEST FIX v3)'')),
           (ascii ''databaseId'', PStr (ascii ''282a89fedba5815e91f0db972912ef9f'')),
           (ascii ''contentHtml'', PStr fixture),
           (ascii ''url'', PStr (ascii ''https://example.servicenow.com/performance-overview-2025-11-13T06-49-50.html'')),
           (ascii ''properties'', PDict [
              (ascii ''Source'', PStr (ascii ''ServiceNow KB'')),
              (ascii ''Status'', PStr (ascii ''Published''))])])
        120]"
  using C5_single_post [of "service 200 (ascii ''{}'') (Inr (created clean_validation))"]
  by (simp add: service_def world_def)

subsection \<open>Claim C6\<close>

text \<open>
  Claim C6. When reading the fixture raises, the run stops right after the attempt: it has
  posted nothing and exits with status 1. In every run, a POST in the log comes after the
  read of the fixture.
\<close>

theorem C6_read_before_post:
  "(read_file env HTML_FILE = Inl e \<longrightarrow>
      main env = (started, 1) \<and> posts (fst (main env)) = [])
   \<and> (fst (main env) = before @ HttpPost url body timeout # after \<longrightarrow>
        OpenRead HTML_FILE \<in> set before)"
proof (intro conjI impI)
  assume "read_file env HTML_FILE = Inl e"
  then show "main env = (started, 1)" by (rule main_read_fails)
  then show "posts (fst (main env)) = []" by simp
next
  assume split: "fst (main env) = before @ HttpPost url body timeout # after"
  obtain tail where "fst (main env) = started @ tail"
    using main_starts by blast
  with split have eq: "before @ HttpPost url body timeout # after =
      Print [Lit ([0x1F4C4] @ ascii '' Testing callout fix with: ''), Fmt (PStr HTML_FILE_name)]
        # OpenRead HTML_FILE # tail"
    by (simp add: started_def)
  show "OpenRead HTML_FILE \<in> set before"
  proof (cases before)
    case Nil
    with eq show ?thesis by simp
  next
    case (Cons x xs)
    with eq show ?thesis by (cases xs) auto
  qed
qed

theorem C6_read_before_post_witness:
  "main (world (Inl OSError) (Inl RequestException)) = (started, 1)
   \<and> posts (fst (main (world (Inl OSError) (Inl RequestException)))) = []
   \<and> OpenRead HTML_FILE \<in> set (started @ [Print [Lit ([0x1F680] @ ascii '' Creating page...'')]])"
proof -
  let ?env = "service 500 (ascii ''Internal Server Error'') (Inl JSONDecodeError)"
  have log: "fst (main ?env) =
      (started @ [Print [Lit ([0x1F680] @ ascii '' Creating page...'')]])
      @ HttpPost (ascii ''http://localhost:3004/api/W2N'') (payload fixture) 120
      # [Print [Lit ([0x274C] @ ascii '' Error: HTTP ''), Fmt (PInt 500)],
         Print [Fmt (PStr (ascii ''Internal Server Error''))]]"
    by (simp add: main_eq test_callout_fix_eq posted_def service_def world_def reply_def
        status_line_def body_line_def)
  show ?thesis
    using C6_read_before_post [of "world (Inl OSError) (Inl RequestException)" OSError]
      C6_read_before_post [of ?env _ _ _ _ _ _, THEN conjunct2, rule_format, OF log]
    by (simp add: world_def)
qed

subsection \<open>Claim C7\<close>

text \<open>
  Claim C7, in the form that holds of the code. Take a run that gets as far as the counts
  blocks: status 200, a decoded object with truthy \<open>success\<close>, a \<open>validation\<close> object,
  and the first four lines of the summary printed. When \<open>source\<close> is a counts object whose
  counters, where present, are printable, the log of the run continues with the whole source
  block: the header and the four counters, 0 for every counter the object lacks. When the
  source block printed and \<open>notion\<close> is such a counts object, the log continues with the
  whole notion block in the same way. An absent counter asks for nothing: only a counter
  that is present (a str holding a lone surrogate) can make a line raise.
\<close>

theorem C7_missing_counters_print_0:
  assumes "gets_response env html_content response"
    and "status_code response = 200"
    and "resp_json response = Inr (PDict r)"
    and "truthy (dict_get r (ascii ''success'') PNone)"
    and "dict_get r (ascii ''validation'') (PDict []) = PDict v"
    and "head_prints r v"
  shows "(map_of v (ascii ''source'') = Some (PDict c) \<and> counters_printable c \<longrightarrow>
        (\<exists>rest. fst (main env) =
           posted html_content @ JsonDecode # summary_head r v
           @ [Print [Lit (ascii ''\<newline>   Source counts:'')],
              Print [Lit (ascii ''      Tables: ''),
                     Fmt (case map_of c (ascii ''tables'') of None \<Rightarrow> PInt 0 | Some n \<Rightarrow> n)],
              Print [Lit (ascii ''      Images: ''),
                     Fmt (case map_of c (ascii ''images'') of None \<Rightarrow> PInt 0 | Some n \<Rightarrow> n)],
              Print [Lit (ascii ''      Lists: ''),
                     Fmt (case map_of c (ascii ''lists'') of None \<Rightarrow> PInt 0 | Some n \<Rightarrow> n)],
              Print [Lit (ascii ''      Callouts: ''),
                     Fmt (case map_of c (ascii ''callouts'') of None \<Rightarrow> PInt 0 | Some n \<Rightarrow> n)]]
           @ rest))
     \<and> (counts_ok v (ascii ''source'')
          \<and> map_of v (ascii ''notion'') = Some (PDict c) \<and> counters_printable c \<longrightarrow>
        (\<exists>rest. fst (main env) =
           posted html_content @ JsonDecode # summary_head r v
           @ counts_log (ascii ''\<newline>   Source counts:'') v (ascii ''source'')
           @ [Print [Lit (ascii ''\<newline>   Notion counts:'')],
              Print [Lit (ascii ''      Tables: ''),
                     Fmt (case map_of c (ascii ''tables'') of None \<Rightarrow> PInt 0 | Some n \<Rightarrow> n)],
              Print [Lit (ascii ''      Images: ''),
                     Fmt (case map_of c (ascii ''images'') of None \<Rightarrow> PInt 0 | Some n \<Rightarrow> n)],
              Print [Lit (ascii ''      Lists: ''),
                     Fmt (case map_of c (ascii ''lists'') of None \<Rightarrow> PInt 0 | Some n \<Rightarrow> n)],
              Print [Lit (ascii ''      Callouts: ''),
                     Fmt (case map_of c (ascii ''callouts'') of None \<Rightarrow> PInt 0 | Some n \<Rightarrow> n)]]
           @ rest))"
proof (intro conjI impI)
  assume "map_of v (ascii ''source'') = Some (PDict c) \<and> counters_printable c"
  then have "print_counts (PDict v) (ascii ''source'') (ascii ''\<newline>   Source counts:'')
      = (counts_block (ascii ''\<newline>   Source counts:'') c, Inr ())"
    by (simp add: print_counts_block)
  then show "\<exists>rest. fst (main env) =
           posted html_content @ JsonDecode # summary_head r v
           @ [Print [Lit (ascii ''\<newline>   Source counts:'')],
              Print [Lit (ascii ''      Tables: ''),
                     Fmt (case map_of c (ascii ''tables'') of None \<Rightarrow> PInt 0 | Some n \<Rightarrow> n)],
              Print [Lit (ascii ''      Images: ''),
                     Fmt (case map_of c (ascii ''images'') of None \<Rightarrow> PInt 0 | Some n \<Rightarrow> n)],
              Print [Lit (ascii ''      Lists: ''),
                     Fmt (case map_of c (ascii ''lists'') of None \<Rightarrow> PInt 0 | Some n \<Rightarrow> n)],
              Print [Lit (ascii ''      Callouts: ''),
                     Fmt (case map_of c (ascii ''callouts'') of None \<Rightarrow> PInt 0 | Some n \<Rightarrow> n)]]
           @ rest"
    by (simp add: main_decoded [OF assms(1-3)] fst_report [OF assms(4-6)]
        counts_block_def shown_def)
next
  assume a: "counts_ok v (ascii ''source'')
      \<and> map_of v (ascii ''notion'') = Some (PDict c) \<and> counters_printable c"
  then have "print_counts (PDict v) (ascii ''notion'') (ascii ''\<newline>   Notion counts:'')
      = (counts_block (ascii ''\<newline>   Notion counts:'') c, Inr ())"
    by (simp add: print_counts_block)
  moreover from a have "print_counts (PDict v) (ascii ''source'') (ascii ''\<newline>   Source counts:'')
      = (counts_log (ascii ''\<newline>   Source counts:'') v (ascii ''source''), Inr ())"
    by (simp add: print_counts_complete)
  ultimately show "\<exists>rest. fst (main env) =
           posted html_content @ JsonDecode # summary_head r v
           @ counts_log (ascii ''\<newline>   Source counts:'') v (ascii ''source'')
           @ [Print [Lit (ascii ''\<newline>   Notion counts:'')],
              Print [Lit (ascii ''      Tables: ''),
                     Fmt (case map_of c (ascii ''tables'') of None \<Rightarrow> PInt 0 | Some n \<Rightarrow> n)],
              Print [Lit (ascii ''      Images: ''),
                     Fmt (case map_of c (ascii ''images'') of None \<Rightarrow> PInt 0 | Some n \<Rightarrow> n)],
              Print [Lit (ascii ''      Lists: ''),
                     Fmt (case map_of c (ascii ''lists'') of None \<Rightarrow> PInt 0 | Some n \<Rightarrow> n)],
              Print [Lit (ascii ''      Callouts: ''),
                     Fmt (case map_of c (ascii ''callouts'') of None \<Rightarrow> PInt 0 | Some n \<Rightarrow> n)]]
           @ rest"
    using a by (simp add: main_decoded [OF assms(1-3)] fst_report [OF assms(4-6)]
        counts_block_def shown_def)
qed

theorem C7_missing_counters_print_0_witness:
  "(\<exists>rest. fst (main (service 200 (ascii ''{}'') (Inr (created sparse_counts)))) =
      posted fixture @ JsonDecode # summary_head (created_items sparse_counts) sparse_counts
      @ [Print [Lit (ascii ''\<newline>   Source counts:'')],
         Print [Lit (ascii ''      Tables: ''), Fmt (PInt 2)],
         Print [Lit (ascii ''      Images: ''), Fmt (PInt 0)],
         Print [Lit (ascii ''      Lists: ''), Fmt (PInt 0)],
         Print [Lit (ascii ''      Callouts: ''), Fmt (PInt 0)]]
      @ rest)
   \<and> (\<exists>rest. fst (main (service 200 (ascii ''{}'') (Inr (created sparse_counts)))) =
      posted fixture @ JsonDecode # summary_head (created_items sparse_counts) sparse_counts
      @ counts_log (ascii ''\<newline>   Source counts:'') sparse_counts (ascii ''source'')
      @ [Print [Lit (ascii ''\<newline>   Notion counts:'')],
         Print [Lit (ascii ''      Tables: ''), Fmt (PInt 0)],
         Print [Lit (ascii ''      Images: ''), Fmt (PInt 0)],
         Print [Lit (ascii ''      Lists: ''), Fmt (PInt 0)],
         Print [Lit (ascii ''      Callouts: ''), Fmt (PInt 0)]]
      @ rest)"
proof -
  let ?env = "service 200 (ascii ''{}'') (Inr (created sparse_counts))"
  let ?resp = "reply 200 (ascii ''{}'') (Inr (created sparse_counts))"
  have g: "gets_response ?env fixture ?resp" by simp
  have j: "resp_json ?resp = Inr (PDict (created_items sparse_counts))"
    by (simp add: created_def)
  have s: "truthy (dict_get (created_items sparse_counts) (ascii ''success'') PNone)"
    by (simp add: created_items_def dict_get_def)
  have v: "dict_get (created_items sparse_counts) (ascii ''validation'') (PDict [])
      = PDict sparse_counts"
    by (simp add: created_items_def dict_get_def)
  have h: "head_prints (created_items sparse_counts) sparse_counts"
    by (simp add: head_prints_def created_items_def sparse_counts_def dict_get_def)
  have src: "map_of sparse_counts (ascii ''source'') = Some (PDict [(ascii ''tables'', PInt 2)])
      \<and> counters_printable [(ascii ''tables'', PInt 2)]"
    by (simp add: sparse_counts_def counters_printable_def counter_names_def)
  have ntn: "counts_ok sparse_counts (ascii ''source'')
      \<and> map_of sparse_counts (ascii ''notion'') = Some (PDict [])
      \<and> counters_printable []"
    by (simp add: sparse_counts_def counts_ok_def counters_printable_def counter_names_def)
  show ?thesis
    using C7_missing_counters_print_0 [OF g _ j s v h, of "[(ascii ''tables'', PInt 2)]"] src
      C7_missing_counters_print_0 [OF g _ j s v h, of "[]"] ntn
    by simp
qed

text \<open>
  Claim C7, as the specification states it, fails on this run: \<open>validation.source\<close> is a
  counts object that lacks \<open>images\<close>, \<open>lists\<close> and \<open>callouts\<close>, and its \<open>tables\<close> is a
  str of one lone surrogate. Line 59 prints the header, line 60 raises
  \<open>UnicodeEncodeError\<close>, and no line shows 0 for a missing counter.
\<close>

theorem C7_missing_counters_print_0_counterexample:
  "parsed_response (service 200 (ascii ''{}'') (Inr (created odd_tables)))
     = Some (created odd_tables)
   \<and> py_get (created odd_tables) (ascii ''success'') PNone = Inr (PBool True)
   \<and> py_get (created odd_tables) (ascii ''validation'') (PDict []) = Inr (PDict odd_tables)
   \<and> py_index (PDict odd_tables) (ascii ''source'')
       = Inr (PDict [(ascii ''tables'', PStr lone_surrogate)])
   \<and> map_of [(ascii ''tables'', PStr lone_surrogate)] (ascii ''images'') = None
   \<and> test_callout_fix (service 200 (ascii ''{}'') (Inr (created odd_tables))) =
       (posted fixture @
          [JsonDecode,
           Print [Lit ([0x2705] @ ascii '' Page created: ''), Fmt (PStr (ascii ''abc123''))],
           Print [Lit (ascii ''   URL: ''), Fmt (PStr (ascii ''https://notion.so/abc123''))],
           Print [Lit (ascii ''\<newline>'' @ [0x1F4CA] @ ascii '' Validation Results:'')],
           Print [Lit (ascii ''   Has Errors: ''), Fmt (PBool False)],
           Print [Lit (ascii ''\<newline>   Source counts:'')]],
        Inl UnicodeEncodeError)
   \<and> Print [Lit (ascii ''      Images: ''), Fmt (PInt 0)]
        \<notin> set (fst (main (service 200 (ascii ''{}'') (Inr (created odd_tables)))))"
proof -
  have r: "report (created odd_tables) =
         ([Print [Lit ([0x2705] @ ascii '' Page created: ''), Fmt (PStr (ascii ''abc123''))],
           Print [Lit (ascii ''   URL: ''), Fmt (PStr (ascii ''https://notion.so/abc123''))],
           Print [Lit (ascii ''\<newline>'' @ [0x1F4CA] @ ascii '' Validation Results:'')],
           Print [Lit (ascii ''   Has Errors: ''), Fmt (PBool False)],
           Print [Lit (ascii ''\<newline>   Source counts:'')]],
          Inl UnicodeEncodeError)"
    by (simp add: report_def created_def created_items_def odd_tables_def dict_get_def
        print_counts_def counts_line_def surrogate_def lone_surrogate_def)
  have run: "test_callout_fix (service 200 (ascii ''{}'') (Inr (created odd_tables))) =
      (posted fixture @ JsonDecode # fst (report (created odd_tables)),
       snd (report (created odd_tables)))"
    by (simp add: test_callout_fix_eq service_def world_def reply_def)
  have gets: "py_get (created odd_tables) (ascii ''success'') PNone = Inr (PBool True)"
    "py_get (created odd_tables) (ascii ''validation'') (PDict []) = Inr (PDict odd_tables)"
    "py_index (PDict odd_tables) (ascii ''source'')
       = Inr (PDict [(ascii ''tables'', PStr lone_surrogate)])"
    by (simp_all add: dict_get_def odd_tables_def created_def created_items_def)
  show ?thesis
    using gets by (simp add: main_eq run r) (simp add: posted_def started_def)
qed

subsection \<open>Claim C8\<close>

text \<open>
  Claim C8, in the form that holds of the code. Two runs whose responses (status 200)
  differ only in the list under \<open>validation.errors\<close>, both lists holding printable entries
  only, exit with the same status. When such a run gets as far as the errors block (truthy
  \<open>success\<close>, the first four lines and both counts blocks printed), its log ends with the
  errors block: nothing for an empty list, otherwise the header and one warning line per
  entry; and its exit status is 1 when \<open>hasErrors\<close> is truthy and 0 otherwise, whatever
  the list holds.
\<close>

theorem C8_errors_list_is_informational:
  assumes "gets_response env1 html1 response1" and "gets_response env2 html2 response2"
    and "status_code response1 = 200" and "status_code response2 = 200"
    and "resp_json response1 = Inr (PDict r1)" and "resp_json response2 = Inr (PDict r2)"
    and "\<forall>key. key \<noteq> ascii ''validation'' \<longrightarrow> map_of r1 key = map_of r2 key"
    and "map_of r1 (ascii ''validation'') = Some (PDict v1)"
    and "map_of r2 (ascii ''validation'') = Some (PDict v2)"
    and "\<forall>key. key \<noteq> ascii ''errors'' \<longrightarrow> map_of v1 key = map_of v2 key"
    and "map_of v1 (ascii ''errors'') = Some (PList es1)"
    and "map_of v2 (ascii ''errors'') = Some (PList es2)"
    and "list_all printable es1" and "list_all printable es2"
  shows "snd (main env1) = snd (main env2)
     \<and> (truthy (dict_get r1 (ascii ''success'') PNone) \<and> head_prints r1 v1
          \<and> counts_ok v1 (ascii ''source'') \<and> counts_ok v1 (ascii ''notion'') \<longrightarrow>
        main env1 =
          (posted html1 @ JsonDecode # summary_head r1 v1
             @ counts_log (ascii ''\<newline>   Source counts:'') v1 (ascii ''source'')
             @ counts_log (ascii ''\<newline>   Notion counts:'') v1 (ascii ''notion'')
             @ (if es1 = [] then []
                else Print [Lit (ascii ''\<newline>   '' @ [0x26A0, 0xFE0F] @ ascii '' Errors:'')]
                       # map (\<lambda>error. Print [Lit (ascii ''      - ''), Fmt error]) es1),
           if truthy (dict_get v1 (ascii ''hasErrors'') (PBool True)) then 1 else 0))"
proof -
  have success: "dict_get r1 (ascii ''success'') PNone = dict_get r2 (ascii ''success'') PNone"
    and page: "dict_get r1 (ascii ''pageId'') PNone = dict_get r2 (ascii ''pageId'') PNone"
    and url: "dict_get r1 (ascii ''url'') PNone = dict_get r2 (ascii ''url'') PNone"
    using assms(7) by (auto intro!: dict_get_cong)
  have v1: "dict_get r1 (ascii ''validation'') (PDict []) = PDict v1"
    and v2: "dict_get r2 (ascii ''validation'') (PDict []) = PDict v2"
    using assms(8,9) by (simp_all add: dict_get_def)
  have source: "counts_ok v1 (ascii ''source'') = counts_ok v2 (ascii ''source'')"
    and notion: "counts_ok v1 (ascii ''notion'') = counts_ok v2 (ascii ''notion'')"
    using assms(10) by (auto intro!: counts_ok_cong)
  have has_errors: "dict_get v1 (ascii ''hasErrors'') (PBool True)
      = dict_get v2 (ascii ''hasErrors'') (PBool True)"
    using assms(10) by (auto intro!: dict_get_cong)
  have e1: "errors_ok v1" and e2: "errors_ok v2"
    using assms(11-14) by (simp_all add: errors_ok_list)
  have completes: "summary_completes r1 v1 = summary_completes r2 v2"
    by (simp add: summary_completes_def head_prints_def page url has_errors source notion e1 e2)
  have p1: "parsed_response env1 = Some (PDict r1)"
    and p2: "parsed_response env2 = Some (PDict r2)"
    using assms(1-6) by (simp_all add: parsed_response_gets)
  have "snd (main env1) = 0 \<longleftrightarrow> snd (main env2) = 0"
    by (simp add: exit_zero_iff p1 p2 v1 v2 success has_errors completes)
  then have exit: "snd (main env1) = snd (main env2)"
    using exit_code_cases [of env1] exit_code_cases [of env2] by auto
  have log: "main env1 =
          (posted html1 @ JsonDecode # summary_head r1 v1
             @ counts_log (ascii ''\<newline>   Source counts:'') v1 (ascii ''source'')
             @ counts_log (ascii ''\<newline>   Notion counts:'') v1 (ascii ''notion'')
             @ (if es1 = [] then []
                else Print [Lit (ascii ''\<newline>   '' @ [0x26A0, 0xFE0F] @ ascii '' Errors:'')]
                       # map (\<lambda>error. Print [Lit (ascii ''      - ''), Fmt error]) es1),
           if truthy (dict_get v1 (ascii ''hasErrors'') (PBool True)) then 1 else 0)"
    if "truthy (dict_get r1 (ascii ''success'') PNone)" and "head_prints r1 v1"
      and "counts_ok v1 (ascii ''source'')" and "counts_ok v1 (ascii ''notion'')"
  proof -
    from that e1 have "summary_completes r1 v1" by (simp add: summary_completes_def)
    from report_complete [OF that(1) v1 this] show ?thesis
      by (simp add: main_decoded [OF assms(1,3,5)] print_errors_list [OF assms(11,13)]
          warning_lines_def)
  qed
  from exit log show ?thesis by blast
qed

theorem C8_errors_list_is_informational_witness:
  "snd (main (service 200 (ascii ''{}'') (Inr (created (with_errors []))))) =
   snd (main (service 200 (ascii ''{}'')
     (Inr (created (with_errors [PStr (ascii ''Callout count mismatch''), PInt 7])))))
   \<and> main (service 200 (ascii ''{}'')
       (Inr (created (with_errors [PStr (ascii ''Callout count mismatch''), PInt 7])))) =
       (posted fixture @ JsonDecode
          # summary_head
              (created_items (with_errors [PStr (ascii ''Callout count mismatch''), PInt 7]))
              (with_errors [PStr (ascii ''Callout count mismatch''), PInt 7])
          @ counts_block (ascii ''\<newline>   Source counts:'')
              [(ascii ''tables'', PInt 2), (ascii ''images'', PInt 0),
               (ascii ''lists'', PInt 0), (ascii ''callouts'', PInt 1)]
          @ counts_block (ascii ''\<newline>   Notion counts:'')
              [(ascii ''tables'', PInt 2), (ascii ''images'', PInt 0),
               (ascii ''lists'', PInt 0), (ascii ''callouts'', PInt 1)]
          @ [Print [Lit (ascii ''\<newline>   '' @ [0x26A0, 0xFE0F] @ ascii '' Errors:'')],
             Print [Lit (ascii ''      - ''), Fmt (PStr (ascii ''Callout count mismatch''))],
             Print [Lit (ascii ''      - ''), Fmt (PInt 7)]],
        0)"
proof -
  let ?es = "[PStr (ascii ''Callout count mismatch''), PInt 7]"
  let ?env = "\<lambda>es. service 200 (ascii ''{}'') (Inr (created (with_errors es)))"
  let ?resp = "\<lambda>es. reply 200 (ascii ''{}'') (Inr (created (with_errors es)))"
  have g: "gets_response (?env es) fixture (?resp es)" for es
    by simp
  have j: "resp_json (?resp es) = Inr (PDict (created_items (with_errors es)))" for es
    by (simp add: created_def)
  have rk: "\<forall>key. key \<noteq> ascii ''validation'' \<longrightarrow>
      map_of (created_items (with_errors ?es)) key = map_of (created_items (with_errors [])) key"
    by (simp add: created_items_def)
  have rv: "map_of (created_items (with_errors es)) (ascii ''validation'')
      = Some (PDict (with_errors es))" for es
    by (simp add: created_items_def)
  have m: "map_of (with_errors es) (ascii ''errors'') = Some (PList es)" for es
    by (simp add: with_errors_def clean_validation_def)
  have k: "\<forall>key. key \<noteq> ascii ''errors'' \<longrightarrow>
      map_of (with_errors ?es) key = map_of (with_errors []) key"
    by (simp add: with_errors_def map_add_def split: option.splits)
  have c: "counts_ok (with_errors ?es) (ascii ''source'')"
    "counts_ok (with_errors ?es) (ascii ''notion'')"
    by (simp_all add: counts_ok_def with_errors_def clean_validation_def counts_def
        counters_printable_def counter_names_def)
  have h: "dict_get (with_errors ?es) (ascii ''hasErrors'') (PBool True) = PBool False"
    by (simp add: dict_get_def with_errors_def clean_validation_def)
  have hp: "head_prints (created_items (with_errors ?es)) (with_errors ?es)"
    by (simp add: head_prints_def h) (simp add: created_items_def dict_get_def)
  have s: "truthy (dict_get (created_items (with_errors ?es)) (ascii ''success'') PNone)"
    by (simp add: created_items_def dict_get_def)
  have logs: "counts_log header (with_errors ?es) (ascii ''source'') =
      counts_block header [(ascii ''tables'', PInt 2), (ascii ''images'', PInt 0),
               (ascii ''lists'', PInt 0), (ascii ''callouts'', PInt 1)]"
    "counts_log header (with_errors ?es) (ascii ''notion'') =
      counts_block header [(ascii ''tables'', PInt 2), (ascii ''images'', PInt 0),
               (ascii ''lists'', PInt 0), (ascii ''callouts'', PInt 1)]" for header
    by (simp_all add: counts_log_def with_errors_def clean_validation_def counts_def)
  have p: "list_all printable ?es" "list_all printable []"
    by simp_all
  have both: "snd (main (?env ?es)) = snd (main (?env []))
      \<and> (truthy (dict_get (created_items (with_errors ?es)) (ascii ''success'') PNone)
           \<and> head_prints (created_items (with_errors ?es)) (with_errors ?es)
           \<and> counts_ok (with_errors ?es) (ascii ''source'')
           \<and> counts_ok (with_errors ?es) (ascii ''notion'') \<longrightarrow>
         main (?env ?es) =
          (posted fixture @ JsonDecode
             # summary_head (created_items (with_errors ?es)) (with_errors ?es)
             @ counts_log (ascii ''\<newline>   Source counts:'') (with_errors ?es) (ascii ''source'')
             @ counts_log (ascii ''\<newline>   Notion counts:'') (with_errors ?es) (ascii ''notion'')
             @ (if ?es = [] then []
                else Print [Lit (ascii ''\<newline>   '' @ [0x26A0, 0xFE0F] @ ascii '' Errors:'')]
                       # map (\<lambda>error. Print [Lit (ascii ''      - ''), Fmt error]) ?es),
           if truthy (dict_get (with_errors ?es) (ascii ''hasErrors'') (PBool True))
           then 1 else 0))"
    by (rule C8_errors_list_is_informational [OF g g _ _ j j rk rv rv k m m p]) simp_all
  from both have same: "snd (main (?env [])) = snd (main (?env ?es))"
    by simp
  from both s hp c have run: "main (?env ?es) =
          (posted fixture @ JsonDecode
             # summary_head (created_items (with_errors ?es)) (with_errors ?es)
             @ counts_log (ascii ''\<newline>   Source counts:'') (with_errors ?es) (ascii ''source'')
             @ counts_log (ascii ''\<newline>   Notion counts:'') (with_errors ?es) (ascii ''notion'')
             @ (if ?es = [] then []
                else Print [Lit (ascii ''\<newline>   '' @ [0x26A0, 0xFE0F] @ ascii '' Errors:'')]
                       # map (\<lambda>error. Print [Lit (ascii ''      - ''), Fmt error]) ?es),
           if truthy (dict_get (with_errors ?es) (ascii ''hasErrors'') (PBool True))
           then 1 else 0)"
    by blast
  show ?thesis
    by (rule conjI [OF same]) (simp add: run h logs)
qed

text \<open>
  Claim C8, as the specification states it, fails on these two runs: the responses differ
  only in the content of \<open>validation.errors\<close>, an empty list in one and a list of one str
  of one lone surrogate in the other. The first run exits with status 0; in the second,
  line 75 raises \<open>UnicodeEncodeError\<close> and the exit status is 1.
\<close>

theorem C8_errors_list_is_informational_counterexample:
  "map_of (with_errors []) (ascii ''errors'') = Some (PList [])
   \<and> map_of (with_errors [PStr lone_surrogate]) (ascii ''errors'')
       = Some (PList [PStr lone_surrogate])
   \<and> snd (main (service 200 (ascii ''{}'') (Inr (created (with_errors []))))) = 0
   \<and> snd (main (service 200 (ascii ''{}'')
       (Inr (created (with_errors [PStr lone_surrogate]))))) = 1
   \<and> snd (test_callout_fix (service 200 (ascii ''{}'')
       (Inr (created (with_errors [PStr lone_surrogate]))))) = Inl UnicodeEncodeError"
proof -
  have m: "map_of (with_errors es) (ascii ''errors'') = Some (PList es)" for es
    by (simp add: with_errors_def clean_validation_def)
  have s: "truthy (dict_get (created_items v) (ascii ''success'') PNone)" for v
    by (simp add: created_items_def dict_get_def)
  have v: "dict_get (created_items v) (ascii ''validation'') (PDict []) = PDict v" for v
    by (simp add: created_items_def dict_get_def)
  have h: "dict_get (with_errors es) (ascii ''hasErrors'') (PBool True) = PBool False" for es
    by (simp add: dict_get_def with_errors_def clean_validation_def)
  have hp: "head_prints (created_items (with_errors es)) (with_errors es)" for es
    by (simp add: head_prints_def h) (simp add: created_items_def dict_get_def)
  have c: "counts_ok (with_errors es) (ascii ''source'')"
    "counts_ok (with_errors es) (ascii ''notion'')" for es
    by (simp_all add: counts_ok_def with_errors_def clean_validation_def counts_def
        counters_printable_def counter_names_def)
  have e0: "errors_ok (with_errors [])"
    by (simp add: errors_ok_def m)
  have e1: "\<not> errors_ok (with_errors [PStr lone_surrogate])"
    by (simp add: errors_ok_def m lone_surrogate_def surrogate_def)
  have zero: "snd (main (service 200 (ascii ''{}'') (Inr (created (with_errors []))))) = 0"
    by (simp add: exit_zero_iff created_def s v h summary_completes_def hp c e0)
  have "snd (main (service 200 (ascii ''{}'')
       (Inr (created (with_errors [PStr lone_surrogate]))))) \<noteq> 0"
    by (simp add: exit_zero_iff created_def s v h summary_completes_def hp c e1)
  then have one: "snd (main (service 200 (ascii ''{}'')
       (Inr (created (with_errors [PStr lone_surrogate]))))) = 1"
    using exit_code_cases by blast
  have pe: "snd (print_errors (PDict (with_errors [PStr lone_surrogate]))) = Inl UnicodeEncodeError"
    by (simp add: print_errors_truthy [OF m] lone_surrogate_def surrogate_def ret_def)
  have pc: "snd (print_counts (PDict (with_errors [PStr lone_surrogate]))
        (ascii ''source'') (ascii ''\<newline>   Source counts:'')) = Inr ()"
    "snd (print_counts (PDict (with_errors [PStr lone_surrogate]))
        (ascii ''notion'') (ascii ''\<newline>   Notion counts:'')) = Inr ()"
    using c by (simp_all add: snd_print_counts)
  have "snd (report (created (with_errors [PStr lone_surrogate]))) = Inl UnicodeEncodeError"
    unfolding created_def report_def using hp [of "[PStr lone_surrogate]"]
    by (simp add: s v snd_io_bind pc pe head_prints_def surrogate_def)
  then have raised: "snd (test_callout_fix (service 200 (ascii ''{}'')
       (Inr (created (with_errors [PStr lone_surrogate]))))) = Inl UnicodeEncodeError"
    by (simp add: test_callout_fix_eq service_def world_def reply_def)
  from m zero one raised show ?thesis by simp
qed

subsection \<open>Claim C9\<close>

text \<open>
  Claim C9. \<open>response.json()\<close> is called exactly when the status code is 200; every other
  status, 201 and the other 2xx codes included, takes the HTTP error path: the run prints the
  status code (and then the body, when it can be encoded) and exits with status 1.
\<close>

theorem C9_only_200_is_decoded:
  assumes "gets_response env html_content response"
  shows "(JsonDecode \<in> set (fst (main env)) \<longleftrightarrow> status_code response = 200)
     \<and> (status_code response \<noteq> 200 \<longrightarrow>
          main env =
            (posted html_content @
               Print [Lit ([0x274C] @ ascii '' Error: HTTP ''), Fmt (PInt (status_code response))]
               # (if encodable (resp_text response)
                  then [Print [Fmt (PStr (resp_text response))]] else []),
             1))"
proof (cases "status_code response = 200")
  case True
  then have "JsonDecode \<in> set (fst (main env))"
    using assms by (cases "resp_json response") (simp_all add: main_decode_fails main_decoded)
  with True show ?thesis by simp
next
  case False
  with assms show ?thesis by (simp add: main_http_error status_line_def body_line_def)
qed

theorem C9_only_200_is_decoded_witness:
  "JsonDecode \<notin> set (fst (main (service 201 (ascii ''{}'') (Inr (created clean_validation)))))
   \<and> main (service 201 (ascii ''{}'') (Inr (created clean_validation))) =
       (posted fixture @
          [Print [Lit ([0x274C] @ ascii '' Error: HTTP ''), Fmt (PInt 201)],
           Print [Fmt (PStr (ascii ''{}''))]],
        1)"
  using C9_only_200_is_decoded [of "service 201 (ascii ''{}'') (Inr (created clean_validation))" fixture
      "reply 201 (ascii ''{}'') (Inr (created clean_validation))"]
  by simp

subsection \<open>Claim C10\<close>

text \<open>
  Claim C10. When the decoded response is an object without the key \<open>success\<close>, or with
  \<open>success\<close> null, the run takes the failure branch: it prints the failure line and the
  result and exits with status 1, as it does for \<open>success\<close> false.
\<close>

theorem C10_success_missing_or_null:
  assumes "gets_response env html_content response"
    and "status_code response = 200"
    and "resp_json response = Inr (PDict r)"
    and "map_of r (ascii ''success'') = None \<or> map_of r (ascii ''success'') = Some PNone"
  shows "main env =
     (posted html_content @
        [JsonDecode,
         Print [Lit ([0x274C] @ ascii '' Page creation failed'')],
         Print [Dumps (PDict r) 2]],
      1)"
  using assms by (intro main_failed) (auto simp add: dict_get_def)

theorem C10_success_missing_or_null_witness:
  "main (service 200 (ascii ''{}'') (Inr (PDict [(ascii ''validation'', PDict clean_validation)]))) =
     (posted fixture @
        [JsonDecode,
         Print [Lit ([0x274C] @ ascii '' Page creation failed'')],
         Print [Dumps (PDict [(ascii ''validation'', PDict clean_validation)]) 2]],
      1)
   \<and> main (service 200 (ascii ''{}'') (Inr (PDict [(ascii ''success'', PNone)]))) =
     (posted fixture @
        [JsonDecode,
         Print [Lit ([0x274C] @ ascii '' Page creation failed'')],
         Print [Dumps (PDict [(ascii ''success'', PNone)]) 2]],
      1)"
  using C10_success_missing_or_null [of "service 200 (ascii ''{}'') (Inr (PDict [(ascii ''validation'', PDict clean_validation)]))" fixture
      "reply 200 (ascii ''{}'') (Inr (PDict [(ascii ''validation'', PDict clean_validation)]))"
      "[(ascii ''validation'', PDict clean_validation)]"]
    C10_success_missing_or_null [of "service 200 (ascii ''{}'') (Inr (PDict [(ascii ''success'', PNone)]))" fixture
      "reply 200 (ascii ''{}'') (Inr (PDict [(ascii ''success'', PNone)]))"
      "[(ascii ''success'', PNone)]"]
  by simp

end
